theory Spec2Isabelle
  imports Complex_Main "HOL-Library.AList"
begin

section \<open>Python values\<close>

text \<open>
  A Python float is a finite double, an infinity or NaN. A finite double is given by its
  value, and a float literal of the source such as \<^verbatim>\<open>0.9\<close> by the real it is written as
  (the double nearest to it). Nothing here computes with finite doubles but comparison,
  which is exact and which the rounding of literals preserves: whatever rounds or
  overflows is a parameter of the model (see \<open>arith\<close> below).
\<close>

datatype fl = Fin real | PosInf | NegInf | NaN

text \<open>
  The observations a reward function can attach to a signal: numbers, booleans, strings,
  None, lists and tuples of observations, and one-dimensional float tensors (as
  \<^verbatim>\<open>torch.tensor([0.5, 0.6])\<close> in the tests), given by their elements.
\<close>

datatype pyval =
    PFloat fl
  | PInt int
  | PBool bool
  | PStr string
  | PNone
  | PList "pyval list"
  | PTuple "pyval list"
  | PTensor "fl list"

datatype pyerr = ValueError | TypeError | AttributeError | IndexError | OverflowError

text \<open>The value of a metric: a Python float, or the integer that \<^verbatim>\<open>len\<close> returns.\<close>

datatype mval = MFloat fl | MInt int

text \<open>A dict keeps insertion order and assigns in place: an association list.\<close>

type_synonym report = "(string \<times> mval) list"

text \<open>What a \<^verbatim>\<open>try\<close> body leaves behind: the metrics written so far, and the exception if
  one was raised.\<close>

datatype outcome = Done report | Raised pyerr report

section \<open>Floats: what is exact\<close>

fun isfinite :: "fl \<Rightarrow> bool" where
  "isfinite (Fin _) = True"
| "isfinite _ = False"

fun is_nan :: "fl \<Rightarrow> bool" where
  "is_nan NaN = True"
| "is_nan _ = False"

fun fl_max :: "fl \<Rightarrow> fl \<Rightarrow> fl" where
  "fl_max (Fin a) (Fin b) = Fin (max a b)"
| "fl_max NaN _ = NaN"
| "fl_max _ NaN = NaN"
| "fl_max PosInf _ = PosInf"
| "fl_max _ PosInf = PosInf"
| "fl_max NegInf b = b"
| "fl_max a NegInf = a"

fun fl_min :: "fl \<Rightarrow> fl \<Rightarrow> fl" where
  "fl_min (Fin a) (Fin b) = Fin (min a b)"
| "fl_min NaN _ = NaN"
| "fl_min _ NaN = NaN"
| "fl_min NegInf _ = NegInf"
| "fl_min _ NegInf = NegInf"
| "fl_min PosInf b = b"
| "fl_min a PosInf = a"

section \<open>Arrays\<close>

datatype np_dtype = DBool | DInt | DUInt | DFloat | DFloat32 | DStr | DObject

text \<open>An array: its dtype, its shape, and its elements in row-major order, read as doubles
  (the elements are only read when the dtype is numeric).\<close>

record ndarray =
  dtype :: np_dtype
  shape :: "nat list"
  elems :: "fl list"

text \<open>\<^verbatim>\<open>len(a)\<close> is the first dimension; a zero-dimensional array has none.\<close>

definition np_len :: "ndarray \<Rightarrow> pyerr + nat" where
  "np_len a = (case shape a of [] \<Rightarrow> Inl TypeError | n # _ \<Rightarrow> Inr n)"

text \<open>\<^verbatim>\<open>np.issubdtype(dt, np.number)\<close>: integers and floats are numbers, booleans,
  strings and objects are not.\<close>

fun is_number :: "np_dtype \<Rightarrow> bool" where
  "is_number DInt = True"
| "is_number DUInt = True"
| "is_number DFloat = True"
| "is_number DFloat32 = True"
| "is_number _ = False"

section \<open>What rounds: the parameter of the model\<close>

text \<open>
  The model does not fix the results of floating-point arithmetic. It takes them from a
  parameter:
  \<^item> \<open>mean_impl\<close> and \<open>std_impl\<close>: what \<^verbatim>\<open>np.mean\<close> and \<^verbatim>\<open>np.std\<close> return for an array of two
    or more elements (the sum may round and overflow, in an order that numpy chooses);
  \<^item> \<open>round_int\<close>: the double nearest to an integer of magnitude above \<open>2^53\<close>;
  \<^item> \<open>str_float\<close>: what the conversion of a string to a float yields, \<open>None\<close> when it
    raises ValueError.
  Every definition below that depends on one of them has the parameter as its first
  argument, and every property holds for all values of the parameter unless it says
  otherwise.
\<close>

record arith =
  mean_impl :: "ndarray \<Rightarrow> fl"
  std_impl :: "ndarray \<Rightarrow> fl"
  round_int :: "int \<Rightarrow> real"
  str_float :: "string \<Rightarrow> fl option"

section \<open>The numpy reductions\<close>

text \<open>
  \<^verbatim>\<open>np.mean\<close>, \<^verbatim>\<open>np.std\<close>, \<^verbatim>\<open>np.max\<close> and \<^verbatim>\<open>np.min\<close> reduce over all elements of the array.
  The mean and the (population) standard deviation of an empty array are NaN, with a
  warning only; the maximum and the minimum of an empty array raise ValueError. NaN
  propagates through all four. What is exact is written out: the mean of one element is
  the element (\<open>x / 1\<close>), its standard deviation is 0 when it is finite (\<open>x - x\<close>) and NaN
  otherwise, and the standard deviation of an array with an infinite element is NaN
  (\<open>inf - inf\<close>). The maximum and the minimum are elements of the array.
\<close>

definition np_mean :: "arith \<Rightarrow> ndarray \<Rightarrow> fl" where
  "np_mean np a =
     (case elems a of
        [] \<Rightarrow> NaN
      | [x] \<Rightarrow> x
      | _ \<Rightarrow> if list_ex is_nan (elems a) then NaN else mean_impl np a)"

definition np_std :: "arith \<Rightarrow> ndarray \<Rightarrow> fl" where
  "np_std np a =
     (case elems a of
        [] \<Rightarrow> NaN
      | [x] \<Rightarrow> if isfinite x then Fin 0 else NaN
      | _ \<Rightarrow> if list_ex (\<lambda>x. \<not> isfinite x) (elems a) then NaN else std_impl np a)"

fun max_list :: "fl list \<Rightarrow> pyerr + fl" where
  "max_list [] = Inl ValueError"
| "max_list (x # xs) = Inr (fold (\<lambda>y acc. fl_max acc y) xs x)"

fun min_list :: "fl list \<Rightarrow> pyerr + fl" where
  "min_list [] = Inl ValueError"
| "min_list (x # xs) = Inr (fold (\<lambda>y acc. fl_min acc y) xs x)"

definition np_max :: "ndarray \<Rightarrow> pyerr + fl" where
  "np_max a = max_list (elems a)"

definition np_min :: "ndarray \<Rightarrow> pyerr + fl" where
  "np_min a = min_list (elems a)"

section \<open>Building arrays\<close>

text \<open>
  Shape discovery of \<^verbatim>\<open>np.array\<close>: a list or tuple adds a dimension when all its
  elements have one and the same shape, a tensor brings its own, everything else is a
  scalar. A ragged nesting has no shape (\<^verbatim>\<open>None\<close>): numpy raises ValueError.
\<close>

definition seq_shape :: "nat list option list \<Rightarrow> nat list option" where
  "seq_shape ss =
     (case ss of
        [] \<Rightarrow> Some [0]
      | s # rest \<Rightarrow>
          (case s of
             None \<Rightarrow> None
           | Some sh \<Rightarrow> if list_all (\<lambda>t. t = Some sh) rest then Some (length ss # sh) else None))"

fun np_shape :: "pyval \<Rightarrow> nat list option" where
  "np_shape (PList xs) = seq_shape (map np_shape xs)"
| "np_shape (PTuple xs) = seq_shape (map np_shape xs)"
| "np_shape (PTensor d) = Some [length d]"
| "np_shape _ = Some []"

fun np_leaves :: "pyval \<Rightarrow> pyval list" where
  "np_leaves (PList xs) = concat (map np_leaves xs)"
| "np_leaves (PTuple xs) = concat (map np_leaves xs)"
| "np_leaves (PTensor d) = map PFloat d"
| "np_leaves v = [v]"

fun is_none :: "pyval \<Rightarrow> bool" where
  "is_none PNone = True"
| "is_none _ = False"

fun is_str :: "pyval \<Rightarrow> bool" where
  "is_str (PStr _) = True"
| "is_str _ = False"

fun is_float :: "pyval \<Rightarrow> bool" where
  "is_float (PFloat _) = True"
| "is_float _ = False"

text \<open>
  An integer is stored as int64 when it is in the int64 range, as uint64 when it is
  above that range and below \<open>2^64\<close>, and as a Python object otherwise.
\<close>

fun is_int64 :: "pyval \<Rightarrow> bool" where
  "is_int64 (PInt i) = (- (2 ^ 63) \<le> i \<and> i < 2 ^ 63)"
| "is_int64 _ = False"

fun is_uint64_only :: "pyval \<Rightarrow> bool" where
  "is_uint64_only (PInt i) = (2 ^ 63 \<le> i \<and> i < 2 ^ 64)"
| "is_uint64_only _ = False"

fun is_object_int :: "pyval \<Rightarrow> bool" where
  "is_object_int (PInt i) = (i < - (2 ^ 63) \<or> 2 ^ 64 \<le> i)"
| "is_object_int _ = False"

text \<open>
  The dtype \<^verbatim>\<open>np.array\<close> finds for scalar leaves: object as soon as one is None or an
  integer that fits no 64-bit type, else a string type as soon as one is a string, else
  the promotion of the leaves' types: float64 with a float, or with int64 and uint64
  together; uint64, int64, bool otherwise. An empty array is float64.
\<close>

definition result_dtype :: "pyval list \<Rightarrow> np_dtype" where
  "result_dtype ls =
     (if list_ex is_none ls \<or> list_ex is_object_int ls then DObject
      else if list_ex is_str ls then DStr
      else if list_ex is_float ls then DFloat
      else if list_ex is_int64 ls \<and> list_ex is_uint64_only ls then DFloat
      else if list_ex is_uint64_only ls then DUInt
      else if list_ex is_int64 ls then DInt
      else if ls = [] then DFloat
      else DBool)"

text \<open>
  An element of a numeric array as a double (True is 1, False is 0). An integer of
  magnitude up to \<open>2^53\<close> is a double; a larger one is rounded, in a float64 array when
  it is stored and in an integer array when a statistic is computed or converted by
  \<^verbatim>\<open>float\<close>. Rounding is monotone, so the largest and the smallest element are the same
  either way, and the model rounds when the array is built.
\<close>

definition int_value :: "arith \<Rightarrow> int \<Rightarrow> real" where
  "int_value np i = (if \<bar>i\<bar> \<le> 2 ^ 53 then real_of_int i else round_int np i)"

fun num_of :: "arith \<Rightarrow> pyval \<Rightarrow> fl" where
  "num_of np (PFloat f) = f"
| "num_of np (PInt i) = Fin (int_value np i)"
| "num_of np (PBool b) = Fin (if b then 1 else 0)"
| "num_of np _ = NaN"

text \<open>\<^verbatim>\<open>np.array(xs)\<close> for a Python list \<open>xs\<close>.\<close>

definition np_array :: "arith \<Rightarrow> pyval list \<Rightarrow> pyerr + ndarray" where
  "np_array np xs =
     (case np_shape (PList xs) of
        None \<Rightarrow> Inl ValueError
      | Some sh \<Rightarrow>
          Inr \<lparr>dtype = result_dtype (np_leaves (PList xs)), shape = sh,
               elems = map (num_of np) (np_leaves (PList xs))\<rparr>)"

section \<open>compute_reward_metrics (test_reward_metrics.py)\<close>

definition metric_key :: "string \<Rightarrow> string \<Rightarrow> string" where
  "metric_key key stat = ''reward/'' @ key @ ''/'' @ stat"

fun collect :: "(pyerr + 'a) list \<Rightarrow> pyerr + 'a list" where
  "collect [] = Inr []"
| "collect (r # rs) =
     (case r of
        Inl e \<Rightarrow> Inl e
      | Inr x \<Rightarrow> (case collect rs of Inl e \<Rightarrow> Inl e | Inr xs \<Rightarrow> Inr (x # xs)))"

fun is_tensor :: "pyval \<Rightarrow> bool" where
  "is_tensor (PTensor _) = True"
| "is_tensor _ = False"

fun is_list_or_tuple :: "pyval \<Rightarrow> bool" where
  "is_list_or_tuple (PList _) = True"
| "is_list_or_tuple (PTuple _) = True"
| "is_list_or_tuple _ = False"

text \<open>\<^verbatim>\<open>v.flatten()\<close>: only a tensor has the method.\<close>

fun tensor_flatten :: "pyval \<Rightarrow> pyerr + fl list" where
  "tensor_flatten (PTensor d) = Inr d"
| "tensor_flatten _ = Inl AttributeError"

text \<open>\<^verbatim>\<open>for item in sublist\<close>: a list, a tuple, a string (its characters) and a tensor (its
  elements, read as floats) can be iterated, the other values raise TypeError.\<close>

fun py_iter :: "pyval \<Rightarrow> pyerr + pyval list" where
  "py_iter (PList xs) = Inr xs"
| "py_iter (PTuple xs) = Inr xs"
| "py_iter (PStr s) = Inr (map (\<lambda>c. PStr [c]) s)"
| "py_iter (PTensor d) = Inr (map PFloat d)"
| "py_iter _ = Inl TypeError"

text \<open>Lines 25 to 31: the conversion to an array, chosen by the first element. The
  concatenation of tensors is a float32 array.\<close>

definition values_array :: "arith \<Rightarrow> pyval list \<Rightarrow> pyerr + ndarray" where
  "values_array np values =
     (case values of
        [] \<Rightarrow> Inl IndexError
      | v0 # _ \<Rightarrow>
          if is_tensor v0 then
            (case collect (map tensor_flatten values) of
               Inl e \<Rightarrow> Inl e
             | Inr ds \<Rightarrow> Inr \<lparr>dtype = DFloat32, shape = [length (concat ds)], elems = concat ds\<rparr>)
          else if is_list_or_tuple v0 then
            (case collect (map py_iter values) of
               Inl e \<Rightarrow> Inl e
             | Inr its \<Rightarrow> np_array np (concat its))
          else np_array np values)"

text \<open>Line 38, \<^verbatim>\<open>values_array[np.isfinite(values_array)]\<close>: the finite elements, as a
  one-dimensional array of the same dtype.\<close>

definition finite_part :: "ndarray \<Rightarrow> ndarray" where
  "finite_part a =
     \<lparr>dtype = dtype a, shape = [length (filter isfinite (elems a))],
      elems = filter isfinite (elems a)\<rparr>"

text \<open>Lines 43 to 48: the statistics of the filtered array, written one after the other.\<close>

definition write_stats :: "arith \<Rightarrow> string \<Rightarrow> ndarray \<Rightarrow> report \<Rightarrow> outcome" where
  "write_stats np key a m =
     (let m1 = AList.update (metric_key key ''mean'') (MFloat (np_mean np a)) m in
      case np_max a of
        Inl e \<Rightarrow> Raised e m1
      | Inr mx \<Rightarrow>
          (let m2 = AList.update (metric_key key ''max'') (MFloat mx) m1 in
           case np_min a of
             Inl e \<Rightarrow> Raised e m2
           | Inr mn \<Rightarrow>
               (let m3 = AList.update (metric_key key ''min'') (MFloat mn) m2 in
                case np_len a of
                  Inl e \<Rightarrow> Raised e m3
                | Inr n \<Rightarrow>
                    if 1 < n
                    then Done (AList.update (metric_key key ''std'') (MFloat (np_std np a)) m3)
                    else Done m3)))"

text \<open>Lines 24 to 48, the body of the \<^verbatim>\<open>try\<close>. A \<^verbatim>\<open>continue\<close> leaves the metrics as
  they are.\<close>

definition signal_body :: "arith \<Rightarrow> string \<Rightarrow> pyval list \<Rightarrow> report \<Rightarrow> outcome" where
  "signal_body np key values m =
     (case values_array np values of
        Inl e \<Rightarrow> Raised e m
      | Inr a \<Rightarrow>
          if \<not> is_number (dtype a) then Done m
          else
            (case np_len a of
               Inl e \<Rightarrow> Raised e m
             | Inr n \<Rightarrow>
                 if n = 0 then Done m
                 else
                   (case np_len (finite_part a) of
                      Inl e \<Rightarrow> Raised e m
                    | Inr k \<Rightarrow> if k = 0 then Done m else write_stats np key (finite_part a) m)))"

text \<open>\<^verbatim>\<open>except Exception\<close>: every error of this model is an Exception.\<close>

fun is_Exception :: "pyerr \<Rightarrow> bool" where
  "is_Exception _ = True"

text \<open>The loop over \<^verbatim>\<open>reward_extra_infos_dict.items()\<close>. The handler prints a warning and
  goes on with the next key; an exception it does not catch ends the call.\<close>

fun compute_loop :: "arith \<Rightarrow> (string \<times> pyval list) list \<Rightarrow> report \<Rightarrow> pyerr + report" where
  "compute_loop np [] m = Inr m"
| "compute_loop np ((key, values) # rest) m =
     (if values = [] then compute_loop np rest m
      else
        (case signal_body np key values m of
           Done m' \<Rightarrow> compute_loop np rest m'
         | Raised e m' \<Rightarrow> if is_Exception e then compute_loop np rest m' else Inl e))"

definition compute_reward_metrics ::
    "arith \<Rightarrow> (string \<times> pyval list) list \<Rightarrow> pyerr + report" where
  "compute_reward_metrics np reward_extra_infos_dict = compute_loop np reward_extra_infos_dict []"

section \<open>compute_reward_metrics_standalone (complete_test.py)\<close>

text \<open>
  A letter that occurs in no text of a float: the letters of such a text are those of
  \<^verbatim>\<open>inf\<close>, \<^verbatim>\<open>infinity\<close>, \<^verbatim>\<open>nan\<close> and the \<^verbatim>\<open>e\<close> of an exponent, in either case. A string with
  another ASCII letter is rejected with ValueError; what the other strings convert to is
  the parameter \<open>str_float\<close>.
\<close>

definition other_letter :: "char \<Rightarrow> bool" where
  "other_letter c =
     (let n = (of_char c :: nat) in
      ((65 \<le> n \<and> n \<le> 90) \<or> (97 \<le> n \<and> n \<le> 122)) \<and> c \<notin> set ''aefintyAEFINTY'')"

text \<open>
  The conversion of one leaf of \<^verbatim>\<open>np.array(values, dtype=float)\<close>: floats and booleans as
  they are, None as NaN, an integer as \<^verbatim>\<open>float\<close> converts it, which raises OverflowError
  when it rounds to \<open>2^1024\<close> or beyond, a string as described above.
\<close>

fun to_float :: "arith \<Rightarrow> pyval \<Rightarrow> pyerr + fl" where
  "to_float np (PFloat f) = Inr f"
| "to_float np (PInt i) =
     (if 2 ^ 1024 - 2 ^ 970 \<le> \<bar>i\<bar> then Inl OverflowError else Inr (Fin (int_value np i)))"
| "to_float np (PBool b) = Inr (Fin (if b then 1 else 0))"
| "to_float np PNone = Inr NaN"
| "to_float np (PStr s) =
     (if list_ex other_letter s then Inl ValueError
      else (case str_float np s of None \<Rightarrow> Inl ValueError | Some f \<Rightarrow> Inr f))"
| "to_float np _ = Inl TypeError"

definition np_array_float :: "arith \<Rightarrow> pyval list \<Rightarrow> pyerr + ndarray" where
  "np_array_float np xs =
     (case np_shape (PList xs) of
        None \<Rightarrow> Inl ValueError
      | Some sh \<Rightarrow>
          (case collect (map (to_float np) (np_leaves (PList xs))) of
             Inl e \<Rightarrow> Inl e
           | Inr fs \<Rightarrow> Inr \<lparr>dtype = DFloat, shape = sh, elems = fs\<rparr>))"

text \<open>Lines 24 to 29: a list or tuple, a tensor (it has \<^verbatim>\<open>cpu\<close>), or a single value.\<close>

fun standalone_array :: "arith \<Rightarrow> pyval \<Rightarrow> pyerr + ndarray" where
  "standalone_array np (PList xs) = np_array_float np xs"
| "standalone_array np (PTuple xs) = np_array_float np xs"
| "standalone_array np (PTensor d) = Inr \<lparr>dtype = DFloat, shape = [length d], elems = d\<rparr>"
| "standalone_array np v = np_array_float np [v]"

text \<open>Lines 23 to 37, the body of the \<^verbatim>\<open>try\<close>: the five metrics are written one after the
  other, so an exception leaves the ones written before it.\<close>

definition standalone_body :: "arith \<Rightarrow> string \<Rightarrow> pyval \<Rightarrow> report \<Rightarrow> outcome" where
  "standalone_body np key values m =
     (case standalone_array np values of
        Inl e \<Rightarrow> Raised e m
      | Inr a \<Rightarrow>
          (case np_len a of
             Inl e \<Rightarrow> Raised e m
           | Inr n \<Rightarrow>
               if 0 < n then
                 (let m1 = AList.update (metric_key key ''mean'') (MFloat (np_mean np a)) m;
                      m2 = AList.update (metric_key key ''std'') (MFloat (np_std np a)) m1 in
                  case np_min a of
                    Inl e \<Rightarrow> Raised e m2
                  | Inr mn \<Rightarrow>
                      (let m3 = AList.update (metric_key key ''min'') (MFloat mn) m2 in
                       case np_max a of
                         Inl e \<Rightarrow> Raised e m3
                       | Inr mx \<Rightarrow>
                           (let m4 = AList.update (metric_key key ''max'') (MFloat mx) m3 in
                            Done (AList.update (metric_key key ''count'') (MInt (int n)) m4))))
               else Done m))"

text \<open>\<^verbatim>\<open>except (ValueError, TypeError)\<close>: any other exception ends the call.\<close>

fun is_Value_or_TypeError :: "pyerr \<Rightarrow> bool" where
  "is_Value_or_TypeError ValueError = True"
| "is_Value_or_TypeError TypeError = True"
| "is_Value_or_TypeError _ = False"

fun standalone_loop :: "arith \<Rightarrow> (string \<times> pyval) list \<Rightarrow> report \<Rightarrow> pyerr + report" where
  "standalone_loop np [] m = Inr m"
| "standalone_loop np ((key, values) # rest) m =
     (case standalone_body np key values m of
        Done m' \<Rightarrow> standalone_loop np rest m'
      | Raised e m' \<Rightarrow> if is_Value_or_TypeError e then standalone_loop np rest m' else Inl e)"

definition compute_reward_metrics_standalone ::
    "arith \<Rightarrow> (string \<times> pyval) list \<Rightarrow> pyerr + report" where
  "compute_reward_metrics_standalone np reward_extra_info =
     (if reward_extra_info = [] then Inr [] else standalone_loop np reward_extra_info [])"

text \<open>The input of the properties below: every signal name with its series, a Python list.\<close>

definition series_dict :: "(string \<times> pyval list) list \<Rightarrow> (string \<times> pyval) list" where
  "series_dict d = map (\<lambda>(key, values). (key, PList values)) d"

section \<open>Notions used by the properties\<close>

text \<open>The five suffixes of a metric name, and the metric names of one signal.\<close>

definition stat_names :: "string list" where
  "stat_names = [''mean'', ''max'', ''min'', ''std'', ''count'']"

definition signal_keys :: "string \<Rightarrow> string set" where
  "signal_keys k = metric_key k ` set stat_names"

text \<open>
  A finite number: a finite float, or an integer that is a double (of magnitude up to
  \<open>2^53\<close>); its value. A number may also be an infinite float or NaN.
\<close>

fun finite_num :: "pyval \<Rightarrow> bool" where
  "finite_num (PFloat (Fin _)) = True"
| "finite_num (PInt i) = (\<bar>i\<bar> \<le> 2 ^ 53)"
| "finite_num _ = False"

fun value_of :: "pyval \<Rightarrow> real" where
  "value_of (PFloat (Fin x)) = x"
| "value_of (PInt i) = real_of_int i"
| "value_of _ = 0"

fun numeric_scalar :: "pyval \<Rightarrow> bool" where
  "numeric_scalar (PFloat _) = True"
| "numeric_scalar (PInt i) = (\<bar>i\<bar> \<le> 2 ^ 53)"
| "numeric_scalar _ = False"

fun finite_float :: "pyval \<Rightarrow> bool" where
  "finite_float (PFloat (Fin _)) = True"
| "finite_float _ = False"

text \<open>A scalar that is no number.\<close>

fun non_numeric :: "pyval \<Rightarrow> bool" where
  "non_numeric (PStr _) = True"
| "non_numeric PNone = True"
| "non_numeric (PBool _) = True"
| "non_numeric _ = False"

text \<open>A string with a letter that no text of a float has.\<close>

fun text_only :: "pyval \<Rightarrow> bool" where
  "text_only (PStr s) = list_ex other_letter s"
| "text_only _ = False"

text \<open>A list or tuple of numbers, and its elements.\<close>

fun numeric_seq :: "pyval \<Rightarrow> bool" where
  "numeric_seq (PList xs) = list_all numeric_scalar xs"
| "numeric_seq (PTuple xs) = list_all numeric_scalar xs"
| "numeric_seq _ = False"

fun seq_items :: "pyval \<Rightarrow> pyval list" where
  "seq_items (PList xs) = xs"
| "seq_items (PTuple xs) = xs"
| "seq_items _ = []"

text \<open>
  The one-dimensional array of a flat list of finite numbers: as \<^verbatim>\<open>np.array(vs)\<close> builds
  it (float64 with a float in the list, int64 without), and as
  \<^verbatim>\<open>np.array(vs, dtype=float)\<close> builds it.
\<close>

definition series_array :: "pyval list \<Rightarrow> ndarray" where
  "series_array vs =
     \<lparr>dtype = (if list_ex is_float vs then DFloat else DInt), shape = [length vs],
      elems = map (\<lambda>v. Fin (value_of v)) vs\<rparr>"

definition float_array :: "pyval list \<Rightarrow> ndarray" where
  "float_array vs = \<lparr>dtype = DFloat, shape = [length vs], elems = map (\<lambda>v. Fin (value_of v)) vs\<rparr>"

text \<open>
  The array of the finite elements of a flat list of numbers, as
  \<^verbatim>\<open>values_array[np.isfinite(values_array)]\<close> gives it: the dtype is that of the whole list.
\<close>

definition retained_array :: "pyval list \<Rightarrow> ndarray" where
  "retained_array vs =
     \<lparr>dtype = (if list_ex is_float vs then DFloat else DInt),
      shape = [length (filter finite_num vs)],
      elems = map (\<lambda>v. Fin (value_of v)) (filter finite_num vs)\<rparr>"

text \<open>The metrics a \<^verbatim>\<open>try\<close> statement leaves, and the metrics after one turn of each
  loop.\<close>

fun outcome_report :: "outcome \<Rightarrow> report" where
  "outcome_report (Done m) = m"
| "outcome_report (Raised e m) = m"

definition after_signal :: "arith \<Rightarrow> string \<Rightarrow> pyval list \<Rightarrow> report \<Rightarrow> report" where
  "after_signal np key values m =
     (if values = [] then m else outcome_report (signal_body np key values m))"

definition after_signal_standalone :: "arith \<Rightarrow> string \<Rightarrow> pyval \<Rightarrow> report \<Rightarrow> report" where
  "after_signal_standalone np key values m = outcome_report (standalone_body np key values m)"

text \<open>
  The mean and the variance in exact arithmetic, and an arithmetic that is accurate: for
  a float64 array of up to 1000 values of magnitude at most 1, the mean and the square
  of the standard deviation it returns are within \<open>10^-9\<close> of the exact ones. Double
  precision is accurate in this sense, whatever the order of the additions.
\<close>

definition exact_mean :: "real list \<Rightarrow> real" where
  "exact_mean xs = sum_list xs / real (length xs)"

definition exact_var :: "real list \<Rightarrow> real" where
  "exact_var xs = sum_list (map (\<lambda>x. (x - exact_mean xs) * (x - exact_mean xs)) xs) / real (length xs)"

definition accurate :: "arith \<Rightarrow> bool" where
  "accurate np =
     (\<forall>sh xs. xs \<noteq> [] \<and> length xs \<le> 1000 \<and> list_all (\<lambda>x. \<bar>x\<bar> \<le> 1) xs \<longrightarrow>
        (\<exists>m s. np_mean np \<lparr>dtype = DFloat, shape = sh, elems = map Fin xs\<rparr> = Fin m
              \<and> \<bar>m - exact_mean xs\<bar> \<le> 1 / 10 ^ 9
              \<and> np_std np \<lparr>dtype = DFloat, shape = sh, elems = map Fin xs\<rparr> = Fin s
              \<and> 0 \<le> s \<and> \<bar>s * s - exact_var xs\<bar> \<le> 1 / 10 ^ 9))"

text \<open>The arithmetic that does not round: an instance of the parameter.\<close>

fun fl_real :: "fl \<Rightarrow> real" where
  "fl_real (Fin x) = x"
| "fl_real _ = 0"

definition exact_arith :: arith where
  "exact_arith =
     \<lparr>mean_impl = (\<lambda>a. Fin (exact_mean (map fl_real (elems a)))),
      std_impl = (\<lambda>a. Fin (sqrt (exact_var (map fl_real (elems a))))),
      round_int = real_of_int,
      str_float = (\<lambda>s. None)\<rparr>"

section \<open>Metric names and the two loops\<close>

lemma metric_key_inj:
  assumes "st \<in> set stat_names" "st' \<in> set stat_names" "metric_key k st = metric_key k' st'"
  shows "k = k' \<and> st = st'"
proof -
  from assms(3) have "rev (k @ ''/'' @ st) = rev (k' @ ''/'' @ st')"
    by (simp add: metric_key_def)
  then have e: "rev st @ ''/'' @ rev k = rev st' @ ''/'' @ rev k'" by simp
  from assms(1,2) e show ?thesis
    by (auto simp: stat_names_def)
qed

lemma signal_keys_disjoint: "k \<noteq> k' \<Longrightarrow> signal_keys k \<inter> signal_keys k' = {}"
  using metric_key_inj by (auto simp: signal_keys_def)

lemma signal_keys_notin: "k \<noteq> k' \<Longrightarrow> x \<in> signal_keys k \<Longrightarrow> x \<notin> signal_keys k'"
  using signal_keys_disjoint[of k k'] by blast

lemma stat_key_in_signal_keys:
  "st \<in> set stat_names \<Longrightarrow> ''reward/'' @ name @ ''/'' @ st \<in> signal_keys name"
  by (simp add: signal_keys_def metric_key_def)

lemma stat_keys_mem:
  "''reward/'' @ k @ ''/mean'' \<in> signal_keys k" "''reward/'' @ k @ ''/max'' \<in> signal_keys k"
  "''reward/'' @ k @ ''/min'' \<in> signal_keys k" "''reward/'' @ k @ ''/std'' \<in> signal_keys k"
  "''reward/'' @ k @ ''/count'' \<in> signal_keys k"
  by (simp_all add: signal_keys_def metric_key_def stat_names_def)

lemma signal_keys_form:
  "x \<in> signal_keys name \<Longrightarrow> \<exists>st \<in> set stat_names. x = ''reward/'' @ name @ ''/'' @ st"
  by (auto simp: signal_keys_def metric_key_def)

lemma compute_loop_fold:
  "compute_loop np d m = Inr (fold (\<lambda>(k, vs). after_signal np k vs) d m)"
  by (induction np d m rule: compute_loop.induct)
     (auto simp: after_signal_def split: outcome.splits)

lemma compute_eq_fold:
  "compute_reward_metrics np d = Inr (fold (\<lambda>(k, vs). after_signal np k vs) d [])"
  by (simp add: compute_reward_metrics_def compute_loop_fold)

lemma write_stats_map:
  "map_of (outcome_report (write_stats np k a m))
   = map_of m ++ map_of (outcome_report (write_stats np k a []))"
  by (auto simp: write_stats_def Let_def update_conv' split: sum.splits)

lemma write_stats_dom:
  "dom (map_of (outcome_report (write_stats np k a []))) \<subseteq> signal_keys k"
  by (auto simp: write_stats_def Let_def update_conv' signal_keys_def stat_names_def
      split: sum.splits if_splits)

lemma signal_body_cases:
  "(\<forall>m. signal_body np k vs m = Done m) \<or> (\<exists>e. \<forall>m. signal_body np k vs m = Raised e m)
   \<or> (\<exists>a. elems a \<noteq> [] \<and> list_all isfinite (elems a) \<and> shape a = [length (elems a)]
          \<and> (\<forall>m. signal_body np k vs m = write_stats np k a m))"
proof (cases "values_array np vs")
  case (Inl e)
  then show ?thesis by (simp add: signal_body_def)
next
  case (Inr a)
  show ?thesis
  proof (cases "is_number (dtype a) \<and> (\<exists>n. np_len a = Inr n \<and> n \<noteq> 0) \<and> filter isfinite (elems a) \<noteq> []")
    case True
    then have "\<forall>m. signal_body np k vs m = write_stats np k (finite_part a) m"
      by (auto simp: signal_body_def Inr finite_part_def np_len_def)
    moreover have "elems (finite_part a) \<noteq> []" "list_all isfinite (elems (finite_part a))"
      "shape (finite_part a) = [length (elems (finite_part a))]"
      using True by (simp_all add: finite_part_def list_all_iff)
    ultimately show ?thesis by blast
  next
    case False
    then show ?thesis
      by (auto simp: signal_body_def Inr finite_part_def np_len_def split: sum.splits list.splits)
  qed
qed

lemma after_signal_map:
  "map_of (after_signal np k vs m) = map_of m ++ map_of (after_signal np k vs [])"
  using signal_body_cases[of np k vs] write_stats_map[of np k _ m]
  by (auto simp: after_signal_def)

lemma after_signal_dom:
  "dom (map_of (after_signal np k vs [])) \<subseteq> signal_keys k"
proof -
  consider "\<forall>m. signal_body np k vs m = Done m" | e where "\<forall>m. signal_body np k vs m = Raised e m"
    | a where "\<forall>m. signal_body np k vs m = write_stats np k a m"
    using signal_body_cases[of np k vs] by blast
  then show ?thesis
  proof cases
    case 1 then show ?thesis by (simp add: after_signal_def)
  next
    case 2 then show ?thesis by (simp add: after_signal_def)
  next
    case 3 then show ?thesis using write_stats_dom[of np k a] by (simp add: after_signal_def)
  qed
qed

lemma after_signal_nil: "after_signal np k [] m = m"
  by (simp add: after_signal_def)

lemma fold_outside:
  assumes step: "\<And>k v m. map_of (step k v m) = map_of m ++ map_of (step k v [])"
    and dom: "\<And>k v. dom (map_of (step k v [])) \<subseteq> signal_keys k"
  shows "x \<notin> (\<Union>k \<in> fst ` set d. signal_keys k) \<Longrightarrow>
         map_of (fold (\<lambda>(k, v). step k v) d m) x = map_of m x"
proof (induction d arbitrary: m)
  case Nil
  then show ?case by simp
next
  case (Cons p d)
  obtain k v where p: "p = (k, v)" by (cases p)
  from Cons.prems have x: "x \<notin> signal_keys k" and rest: "x \<notin> (\<Union>k \<in> fst ` set d. signal_keys k)"
    by (auto simp: p)
  have "map_of (fold (\<lambda>(k, v). step k v) (p # d) m) x = map_of (step k v m) x"
    using Cons.IH[OF rest] by (simp add: p)
  also have "\<dots> = map_of m x"
    using x dom[of k v] by (subst step) (auto simp: map_add_def split: option.splits)
  finally show ?case .
qed

lemma step_outside:
  assumes step: "\<And>m. map_of (step m) = map_of m ++ map_of (step [])"
    and dom: "dom (map_of (step [])) \<subseteq> signal_keys k"
    and x: "x \<notin> signal_keys k"
  shows "map_of (step m) x = map_of m x"
proof -
  from dom x have "map_of (step []) x = None" by blast
  then show ?thesis by (simp add: step[of m] map_add_def)
qed

lemma fold_signal:
  assumes step: "\<And>k v m. map_of (step k v m) = map_of m ++ map_of (step k v [])"
    and dom: "\<And>k v. dom (map_of (step k v [])) \<subseteq> signal_keys k"
  shows "distinct (map fst d) \<Longrightarrow> (k, v) \<in> set d \<Longrightarrow> x \<in> signal_keys k \<Longrightarrow>
         map_of (fold (\<lambda>(k, v). step k v) d m) x = (map_of m ++ map_of (step k v [])) x"
proof (induction d arbitrary: m)
  case Nil
  then show ?case by simp
next
  case (Cons p d)
  obtain k' v' where p: "p = (k', v')" by (cases p)
  from Cons.prems(1) p have k'_notin: "k' \<notin> fst ` set d" and dist: "distinct (map fst d)"
    by simp_all
  show ?case
  proof (cases "(k, v) = (k', v')")
    case True
    have "x \<notin> (\<Union>k \<in> fst ` set d. signal_keys k)"
    proof
      assume "x \<in> (\<Union>k \<in> fst ` set d. signal_keys k)"
      then obtain k2 where k2: "k2 \<in> fst ` set d" "x \<in> signal_keys k2" by blast
      with k'_notin True have "k \<noteq> k2" by auto
      from signal_keys_notin[OF this Cons.prems(3)] k2(2) show False by simp
    qed
    from fold_outside[of step, OF step dom this]
    have "map_of (fold (\<lambda>(k, v). step k v) d (step k v m)) x = map_of (step k v m) x" .
    then show ?thesis using True p by (simp add: step[of k v m])
  next
    case False
    with Cons.prems(2) p have in_d: "(k, v) \<in> set d" by auto
    then have "k \<in> fst ` set d" by (simp add: rev_image_eqI)
    with k'_notin have ne: "k \<noteq> k'" by auto
    have "x \<notin> signal_keys k'"
      by (rule signal_keys_notin[OF ne Cons.prems(3)])
    then have m: "map_of (step k' v' m) x = map_of m x"
      by (rule step_outside[of "step k' v'", OF step dom])
    have "map_of (fold (\<lambda>(k, v). step k v) (p # d) m) x
          = (map_of (step k' v' m) ++ map_of (step k v [])) x"
      using Cons.IH[OF dist in_d Cons.prems(3)] by (simp add: p)
    also have "\<dots> = (map_of m ++ map_of (step k v [])) x"
      using m by (simp add: map_add_def split: option.splits)
    finally show ?thesis .
  qed
qed

lemma fold_keys:
  assumes step: "\<And>k v m. map_of (step k v m) = map_of m ++ map_of (step k v [])"
    and dom: "\<And>k v. dom (map_of (step k v [])) \<subseteq> signal_keys k"
    and x: "x \<in> fst ` set (fold (\<lambda>(k, v). step k v) d [])"
  shows "\<exists>name \<in> fst ` set d. x \<in> signal_keys name"
proof (rule ccontr)
  assume "\<not> (\<exists>name \<in> fst ` set d. x \<in> signal_keys name)"
  then have "x \<notin> (\<Union>k \<in> fst ` set d. signal_keys k)" by blast
  from fold_outside[of step, OF step dom this, of "[]"]
  have "map_of (fold (\<lambda>(k, v). step k v) d []) x = None" by simp
  then have "x \<notin> fst ` set (fold (\<lambda>(k, v). step k v) d [])"
    by (simp add: map_of_eq_None_iff)
  with x show False by contradiction
qed

lemma absent_signal_keys:
  assumes step: "\<And>k v m. map_of (step k v m) = map_of m ++ map_of (step k v [])"
    and dom: "\<And>k v. dom (map_of (step k v [])) \<subseteq> signal_keys k"
    and "name \<notin> fst ` set d" and "x \<in> signal_keys name"
  shows "map_of (fold (\<lambda>(k, v). step k v) d []) x = None"
proof -
  have "x \<notin> (\<Union>k \<in> fst ` set d. signal_keys k)"
  proof
    assume "x \<in> (\<Union>k \<in> fst ` set d. signal_keys k)"
    then obtain k2 where k2: "k2 \<in> fst ` set d" "x \<in> signal_keys k2" by blast
    with assms(3) have "name \<noteq> k2" by auto
    from signal_keys_notin[OF this assms(4)] k2(2) show False by simp
  qed
  from fold_outside[of step, OF step dom this, of "[]"] show ?thesis by simp
qed

lemma report_lookup:
  assumes "distinct (map fst d)" "(k, vs) \<in> set d" "x \<in> signal_keys k"
    and "compute_reward_metrics np d = Inr r"
  shows "map_of r x = map_of (after_signal np k vs []) x"
proof -
  from assms(4) have r: "r = fold (\<lambda>(k, vs). after_signal np k vs) d []"
    by (simp add: compute_eq_fold)
  show ?thesis unfolding r
    using fold_signal[of "after_signal np", OF after_signal_map after_signal_dom assms(1,2,3), of "[]"]
    by simp
qed

lemma compute_append:
  "compute_reward_metrics np (d1 @ (k, vs) # d2)
   = Inr (fold (\<lambda>(k, vs). after_signal np k vs) d2
            (after_signal np k vs (fold (\<lambda>(k, vs). after_signal np k vs) d1 [])))"
  by (simp add: compute_eq_fold)

lemma compute_append_skip:
  "compute_reward_metrics np (d1 @ d2)
   = Inr (fold (\<lambda>(k, vs). after_signal np k vs) d2 (fold (\<lambda>(k, vs). after_signal np k vs) d1 []))"
  by (simp add: compute_eq_fold)

lemma series_dict_fst: "map fst (series_dict d) = map fst d"
  by (induction d) (auto simp: series_dict_def)

lemma series_dict_mem: "(k, vs) \<in> set d \<Longrightarrow> (k, PList vs) \<in> set (series_dict d)"
  by (force simp: series_dict_def)

lemma standalone_loop_Inr:
  "standalone_loop np d m = Inr r \<Longrightarrow> r = fold (\<lambda>(k, v). after_signal_standalone np k v) d m"
  by (induction np d m rule: standalone_loop.induct)
     (auto simp: after_signal_standalone_def split: outcome.splits if_splits)

lemma standalone_Inr_fold:
  "compute_reward_metrics_standalone np d = Inr r \<Longrightarrow>
   r = fold (\<lambda>(k, v). after_signal_standalone np k v) d []"
  by (auto simp: compute_reward_metrics_standalone_def dest: standalone_loop_Inr split: if_splits)

lemma standalone_loop_append:
  "standalone_loop np (d1 @ d2) m
   = (case standalone_loop np d1 m of Inl e \<Rightarrow> Inl e | Inr m' \<Rightarrow> standalone_loop np d2 m')"
  by (induction np d1 m rule: standalone_loop.induct) (auto split: outcome.splits)

lemma standalone_loop_done:
  "list_all (\<lambda>(k, v). \<forall>m. \<exists>m'. standalone_body np k v m = Done m') d \<Longrightarrow>
   \<exists>r. standalone_loop np d m = Inr r"
proof (induction d arbitrary: m)
  case Nil
  then show ?case by simp
next
  case (Cons p d)
  obtain k v where p: "p = (k, v)" by (cases p)
  from Cons.prems p obtain m' where "standalone_body np k v m = Done m'" by auto
  moreover from Cons.prems have "list_all (\<lambda>(k, v). \<forall>m. \<exists>m'. standalone_body np k v m = Done m') d"
    by simp
  ultimately show ?case using Cons.IH[of m'] p by simp
qed

lemma after_signal_standalone_map:
  "map_of (after_signal_standalone np k v m) = map_of m ++ map_of (after_signal_standalone np k v [])"
  by (auto simp: after_signal_standalone_def standalone_body_def Let_def update_conv'
      split: sum.splits)

lemma after_signal_standalone_dom:
  "dom (map_of (after_signal_standalone np k v [])) \<subseteq> signal_keys k"
  by (auto simp: after_signal_standalone_def standalone_body_def Let_def update_conv'
      signal_keys_def stat_names_def split: sum.splits if_splits)

lemma standalone_lookup:
  assumes "distinct (map fst d)" "(k, v) \<in> set d" "x \<in> signal_keys k"
    and "compute_reward_metrics_standalone np d = Inr r"
  shows "map_of r x = map_of (after_signal_standalone np k v []) x"
proof -
  from assms(4) have r: "r = fold (\<lambda>(k, v). after_signal_standalone np k v) d []"
    by (rule standalone_Inr_fold)
  show ?thesis unfolding r
    using fold_signal[of "after_signal_standalone np", OF after_signal_standalone_map
        after_signal_standalone_dom assms(1,2,3), of "[]"]
    by simp
qed

lemma fold_fl_max_Fin:
  "fold (\<lambda>y acc. fl_max acc y) (map Fin rs) (Fin r) = Fin (fold max rs r)"
  by (induction rs arbitrary: r) (auto simp: max.commute)

lemma fold_fl_min_Fin:
  "fold (\<lambda>y acc. fl_min acc y) (map Fin rs) (Fin r) = Fin (fold min rs r)"
  by (induction rs arbitrary: r) (auto simp: min.commute)

lemma max_list_Fin: "rs \<noteq> [] \<Longrightarrow> max_list (map Fin rs) = Inr (Fin (Max (set rs)))"
proof (cases rs)
  case Nil
  assume "rs \<noteq> []"
  with Nil show ?thesis by simp
next
  case (Cons a l)
  have "Max (set (a # l)) = fold max l a" by (rule Max.set_eq_fold)
  then show ?thesis unfolding Cons by (simp only: list.map max_list.simps fold_fl_max_Fin)
qed

lemma min_list_Fin: "rs \<noteq> [] \<Longrightarrow> min_list (map Fin rs) = Inr (Fin (Min (set rs)))"
proof (cases rs)
  case Nil
  assume "rs \<noteq> []"
  with Nil show ?thesis by simp
next
  case (Cons a l)
  have "Min (set (a # l)) = fold min l a" by (rule Min.set_eq_fold)
  then show ?thesis unfolding Cons by (simp only: list.map min_list.simps fold_fl_min_Fin)
qed

lemma all_finite_map_Fin: "list_all isfinite fs \<Longrightarrow> \<exists>rs. fs = map Fin rs"
proof (induction fs)
  case Nil
  then show ?case by simp
next
  case (Cons f fs)
  then obtain rs where "fs = map Fin rs" by auto
  moreover from Cons.prems obtain r where "f = Fin r" by (cases f) auto
  ultimately have "f # fs = map Fin (r # rs)" by simp
  then show ?case by (rule exI)
qed

text \<open>The statistics of a one-dimensional array of finite elements.\<close>

lemma write_stats_Fin:
  assumes "rs \<noteq> []" and a: "elems a = map Fin rs" "shape a = [length rs]"
  shows "write_stats np k a m =
     Done ((if 1 < length rs
            then AList.update (metric_key k ''std'') (MFloat (np_std np a)) else id)
        (AList.update (metric_key k ''min'') (MFloat (Fin (Min (set rs))))
        (AList.update (metric_key k ''max'') (MFloat (Fin (Max (set rs))))
        (AList.update (metric_key k ''mean'') (MFloat (np_mean np a)) m))))"
  using assms(1)
  by (simp add: write_stats_def np_max_def np_min_def np_len_def a max_list_Fin min_list_Fin)

lemma scalar_shape:
  "\<not> is_list_or_tuple v \<Longrightarrow> \<not> is_tensor v \<Longrightarrow> np_shape v = Some [] \<and> np_leaves v = [v]"
  by (cases v) auto

lemma numeric_scalar_shape: "numeric_scalar v \<Longrightarrow> np_shape v = Some [] \<and> np_leaves v = [v]"
  by (cases v) auto

lemma non_numeric_shape: "non_numeric v \<Longrightarrow> np_shape v = Some [] \<and> np_leaves v = [v]"
  by (cases v) auto

lemma is_str_shape: "is_str v \<Longrightarrow> np_shape v = Some [] \<and> np_leaves v = [v]"
  by (cases v) auto

lemma flat_leaves: "(\<And>v. v \<in> set vs \<Longrightarrow> np_leaves v = [v]) \<Longrightarrow> concat (map np_leaves vs) = vs"
  by (induction vs) auto

lemma flat_shape:
  assumes "\<And>v. v \<in> set vs \<Longrightarrow> np_shape v = Some []"
  shows "seq_shape (map np_shape vs) = Some [length vs]"
proof (cases vs)
  case Nil
  then show ?thesis by (simp add: seq_shape_def)
next
  case (Cons a l)
  with assms have "np_shape a = Some []" "list_all (\<lambda>t. t = Some []) (map np_shape l)"
    by (auto simp: list_all_iff)
  then show ?thesis using Cons by (simp add: seq_shape_def)
qed

lemma np_array_flat:
  assumes "\<And>v. v \<in> set vs \<Longrightarrow> np_shape v = Some [] \<and> np_leaves v = [v]"
  shows "np_array np vs
         = Inr \<lparr>dtype = result_dtype vs, shape = [length vs], elems = map (num_of np) vs\<rparr>"
proof -
  have "seq_shape (map np_shape vs) = Some [length vs]" using assms by (intro flat_shape) simp
  moreover have "concat (map np_leaves vs) = vs" using assms by (intro flat_leaves) simp
  ultimately show ?thesis by (simp add: np_array_def)
qed

lemma numeric_scalar_kind:
  "numeric_scalar v \<Longrightarrow> \<not> is_none v \<and> \<not> is_str v \<and> \<not> is_object_int v \<and> \<not> is_uint64_only v
      \<and> (is_float v \<or> is_int64 v)"
proof (cases v)
  case (PInt i)
  assume "numeric_scalar v"
  with PInt have "\<bar>i\<bar> \<le> 2 ^ 53" by simp
  then have "- (2 ^ 63) \<le> i \<and> i < 2 ^ 63" by (simp add: abs_le_iff)
  then show ?thesis using PInt by simp
qed auto

lemma non_numeric_kind:
  "non_numeric v \<Longrightarrow> \<not> is_float v \<and> \<not> is_int64 v \<and> \<not> is_uint64_only v"
  by (cases v) auto

lemma numeric_dtype:
  assumes ne: "vs \<noteq> []" and num: "list_all numeric_scalar vs"
  shows "result_dtype vs = (if list_ex is_float vs then DFloat else DInt)"
proof -
  have a: "\<not> list_ex is_none vs" "\<not> list_ex is_str vs" "\<not> list_ex is_object_int vs"
    "\<not> list_ex is_uint64_only vs"
    using num numeric_scalar_kind by (auto simp: list_all_iff list_ex_iff)
  have "list_ex is_float vs \<or> list_ex is_int64 vs"
  proof -
    from ne obtain v where "v \<in> set vs" by (cases vs) auto
    with num have "numeric_scalar v" by (simp add: list_all_iff)
    then have "is_float v \<or> is_int64 v" using numeric_scalar_kind by blast
    with \<open>v \<in> set vs\<close> show ?thesis by (auto simp: list_ex_iff)
  qed
  with a show ?thesis by (auto simp: result_dtype_def)
qed

lemma non_numeric_dtype:
  "vs \<noteq> [] \<Longrightarrow> list_all non_numeric vs \<Longrightarrow> \<not> is_number (result_dtype vs)"
proof -
  assume ne: "vs \<noteq> []" and num: "list_all non_numeric vs"
  have a: "\<not> list_ex is_float vs" "\<not> list_ex is_int64 vs" "\<not> list_ex is_uint64_only vs"
    using num non_numeric_kind by (auto simp: list_all_iff list_ex_iff)
  with ne show ?thesis by (auto simp: result_dtype_def)
qed

lemma values_array_scalar_head:
  "\<not> is_list_or_tuple v \<Longrightarrow> \<not> is_tensor v \<Longrightarrow> values_array np (v # vs) = np_array np (v # vs)"
  by (simp add: values_array_def)

lemma finite_num_numeric: "finite_num v \<Longrightarrow> numeric_scalar v"
  by (cases v rule: finite_num.cases) auto

lemma num_of_finite: "finite_num v \<Longrightarrow> num_of np v = Fin (value_of v)"
  by (cases v rule: finite_num.cases) (auto simp: int_value_def)

lemma isfinite_num_of: "numeric_scalar v \<Longrightarrow> isfinite (num_of np v) = finite_num v"
  by (cases v rule: finite_num.cases) auto

lemma filter_finite_num_of:
  "list_all numeric_scalar vs \<Longrightarrow>
   filter isfinite (map (num_of np) vs) = map (\<lambda>v. Fin (value_of v)) (filter finite_num vs)"
  by (induction vs) (auto simp: isfinite_num_of num_of_finite)

lemma finite_series:
  assumes "list_all finite_num vs"
  shows "list_all numeric_scalar vs" and "filter finite_num vs = vs"
    and "map (num_of np) vs = map (\<lambda>v. Fin (value_of v)) vs"
proof -
  show "list_all numeric_scalar vs" using assms finite_num_numeric by (auto simp: list_all_iff)
  show "filter finite_num vs = vs" using assms by (simp add: list_all_iff)
  show "map (num_of np) vs = map (\<lambda>v. Fin (value_of v)) vs"
    using assms num_of_finite by (auto simp: list_all_iff)
qed

text \<open>A flat series of numbers in \<^verbatim>\<open>compute_reward_metrics\<close>: the statistics of its finite
  elements.\<close>

lemma signal_body_numeric:
  assumes "list_all numeric_scalar vs" "vs \<noteq> []"
  shows "signal_body np k vs m =
     (if filter finite_num vs = [] then Done m
      else write_stats np k
             \<lparr>dtype = result_dtype vs, shape = [length (filter finite_num vs)],
              elems = map (\<lambda>v. Fin (value_of v)) (filter finite_num vs)\<rparr> m)"
proof -
  from assms(2) obtain a l where Cons: "vs = a # l" by (cases vs) auto
  from assms Cons have a: "numeric_scalar a" by simp
  then have h: "\<not> is_list_or_tuple a" "\<not> is_tensor a" by (cases a; simp)+
  have sh: "np_shape v = Some [] \<and> np_leaves v = [v]" if "v \<in> set vs" for v
  proof -
    from assms(1) that have "numeric_scalar v" unfolding list_all_iff by blast
    then show ?thesis by (rule numeric_scalar_shape)
  qed
  have arr: "values_array np vs
      = Inr \<lparr>dtype = result_dtype vs, shape = [length vs], elems = map (num_of np) vs\<rparr>"
    unfolding Cons values_array_scalar_head[OF h] using np_array_flat[of vs np, OF sh] Cons by simp
  have num: "is_number (result_dtype vs)" using numeric_dtype[OF assms(2,1)] by simp
  show ?thesis using assms(2)
    by (simp add: signal_body_def arr num np_len_def finite_part_def
        filter_finite_num_of[OF assms(1)])
qed

lemma after_signal_numeric:
  assumes "list_all numeric_scalar vs"
  shows "after_signal np k vs m =
     (if filter finite_num vs = [] then m
      else outcome_report (write_stats np k
             \<lparr>dtype = result_dtype vs, shape = [length (filter finite_num vs)],
              elems = map (\<lambda>v. Fin (value_of v)) (filter finite_num vs)\<rparr> m))"
proof (cases "vs = []")
  case True
  then show ?thesis by (simp add: after_signal_def)
next
  case False
  then show ?thesis using signal_body_numeric[OF assms False, of np k m]
    by (simp add: after_signal_def)
qed

lemma series_array_dtype:
  "list_all finite_num vs \<Longrightarrow> vs \<noteq> [] \<Longrightarrow>
   \<lparr>dtype = result_dtype vs, shape = [length vs], elems = map (\<lambda>v. Fin (value_of v)) vs\<rparr>
   = series_array vs"
  using numeric_dtype[of vs] finite_series(1)[of vs] by (simp add: series_array_def)

lemma after_signal_finite:
  assumes "list_all finite_num vs" "vs \<noteq> []"
  shows "after_signal np k vs m =
     (if 1 < length vs
      then AList.update (metric_key k ''std'') (MFloat (np_std np (series_array vs))) else id)
        (AList.update (metric_key k ''min'') (MFloat (Fin (Min (set (map value_of vs)))))
        (AList.update (metric_key k ''max'') (MFloat (Fin (Max (set (map value_of vs)))))
        (AList.update (metric_key k ''mean'') (MFloat (np_mean np (series_array vs))) m)))"
proof -
  have ne: "map value_of vs \<noteq> []" using assms(2) by simp
  have el: "elems (series_array vs) = map Fin (map value_of vs)"
    "shape (series_array vs) = [length (map value_of vs)]"
    by (simp_all add: series_array_def)
  have "after_signal np k vs m = outcome_report (write_stats np k (series_array vs) m)"
    using after_signal_numeric[OF finite_series(1)[OF assms(1)], of np k m]
      finite_series(2)[OF assms(1)] assms(2) series_array_dtype[OF assms]
    by simp
  then show ?thesis
    by (simp only: write_stats_Fin[OF ne el] outcome_report.simps length_map set_map)
qed

lemma after_signal_finite_lookup:
  assumes "list_all finite_num vs" "vs \<noteq> []"
  shows "map_of (after_signal np k vs []) (''reward/'' @ k @ ''/mean'')
           = Some (MFloat (np_mean np (series_array vs)))"
    and "map_of (after_signal np k vs []) (''reward/'' @ k @ ''/max'')
           = Some (MFloat (Fin (Max (set (map value_of vs)))))"
    and "map_of (after_signal np k vs []) (''reward/'' @ k @ ''/min'')
           = Some (MFloat (Fin (Min (set (map value_of vs)))))"
    and "map_of (after_signal np k vs []) (''reward/'' @ k @ ''/std'') =
           (if 1 < length vs then Some (MFloat (np_std np (series_array vs))) else None)"
    and "map_of (after_signal np k vs []) (''reward/'' @ k @ ''/count'') = None"
  unfolding after_signal_finite[OF assms]
  by (simp_all add: update_conv' metric_key_def)

text \<open>The same series in \<^verbatim>\<open>compute_reward_metrics_standalone\<close>.\<close>

lemma to_float_numeric: "numeric_scalar v \<Longrightarrow> to_float np v = Inr (num_of np v)"
proof (cases v)
  case (PInt i)
  assume "numeric_scalar v"
  with PInt have "\<bar>i\<bar> \<le> 2 ^ 53" by simp
  moreover have "(2::int) ^ 53 < 2 ^ 1024 - 2 ^ 970" by simp
  ultimately have "\<not> 2 ^ 1024 - 2 ^ 970 \<le> \<bar>i\<bar>" by linarith
  then show ?thesis using PInt by simp
qed auto

lemma collect_to_float_numeric:
  "list_all numeric_scalar vs \<Longrightarrow> collect (map (to_float np) vs) = Inr (map (num_of np) vs)"
  by (induction vs) (auto simp: to_float_numeric)

lemma np_array_float_numeric:
  assumes "list_all numeric_scalar vs"
  shows "np_array_float np vs
         = Inr \<lparr>dtype = DFloat, shape = [length vs], elems = map (num_of np) vs\<rparr>"
proof -
  have sh: "np_shape v = Some [] \<and> np_leaves v = [v]" if "v \<in> set vs" for v
  proof -
    from assms that have "numeric_scalar v" unfolding list_all_iff by blast
    then show ?thesis by (rule numeric_scalar_shape)
  qed
  have "seq_shape (map np_shape vs) = Some [length vs]" using sh by (intro flat_shape) simp
  moreover have "concat (map np_leaves vs) = vs" using sh by (intro flat_leaves) simp
  ultimately show ?thesis
    using collect_to_float_numeric[OF assms] by (simp add: np_array_float_def)
qed

lemma standalone_body_finite:
  assumes "list_all finite_num vs" "vs \<noteq> []"
  shows "standalone_body np k (PList vs) m =
     Done (AList.update (metric_key k ''count'') (MInt (int (length vs)))
       (AList.update (metric_key k ''max'') (MFloat (Fin (Max (set (map value_of vs)))))
       (AList.update (metric_key k ''min'') (MFloat (Fin (Min (set (map value_of vs)))))
       (AList.update (metric_key k ''std'') (MFloat (np_std np (float_array vs)))
       (AList.update (metric_key k ''mean'') (MFloat (np_mean np (float_array vs))) m)))))"
proof -
  have ne: "map value_of vs \<noteq> []" using assms(2) by simp
  have arr: "np_array_float np vs = Inr (float_array vs)"
    using np_array_float_numeric[OF finite_series(1)[OF assms(1)], of np]
      finite_series(3)[OF assms(1), of np]
    by (simp add: float_array_def)
  have mx: "np_max (float_array vs) = Inr (Fin (Max (set (map value_of vs))))"
    using max_list_Fin[OF ne] by (simp add: np_max_def float_array_def comp_def)
  have mn: "np_min (float_array vs) = Inr (Fin (Min (set (map value_of vs))))"
    using min_list_Fin[OF ne] by (simp add: np_min_def float_array_def comp_def)
  have len: "np_len (float_array vs) = Inr (length vs)"
    by (simp add: np_len_def float_array_def)
  show ?thesis using assms(2)
    by (simp add: standalone_body_def arr mx mn len)
qed

lemma after_signal_standalone_finite_lookup:
  assumes "list_all finite_num vs" "vs \<noteq> []"
  shows "map_of (after_signal_standalone np k (PList vs) []) (''reward/'' @ k @ ''/mean'')
           = Some (MFloat (np_mean np (float_array vs)))"
    and "map_of (after_signal_standalone np k (PList vs) []) (''reward/'' @ k @ ''/max'')
           = Some (MFloat (Fin (Max (set (map value_of vs)))))"
    and "map_of (after_signal_standalone np k (PList vs) []) (''reward/'' @ k @ ''/min'')
           = Some (MFloat (Fin (Min (set (map value_of vs)))))"
    and "map_of (after_signal_standalone np k (PList vs) []) (''reward/'' @ k @ ''/std'')
           = Some (MFloat (np_std np (float_array vs)))"
    and "map_of (after_signal_standalone np k (PList vs) []) (''reward/'' @ k @ ''/count'')
           = Some (MInt (int (length vs)))"
  unfolding after_signal_standalone_def standalone_body_finite[OF assms]
  by (simp_all add: update_conv' metric_key_def)

lemma after_signal_standalone_empty: "after_signal_standalone np k (PList []) m = m"
  by (simp add: after_signal_standalone_def standalone_body_def np_array_float_def seq_shape_def
      np_len_def)

section \<open>Evaluating the model\<close>

lemmas model_defs =
  compute_reward_metrics_def compute_reward_metrics_standalone_def series_dict_def
  signal_body_def standalone_body_def write_stats_def values_array_def np_array_def
  np_array_float_def np_len_def seq_shape_def result_dtype_def finite_part_def
  np_max_def np_min_def metric_key_def int_value_def

lemma exact_var_nonneg: "0 \<le> exact_var xs"
proof -
  have "0 \<le> sum_list (map (\<lambda>x. (x - c) * (x - c)) xs)" for c :: real
    by (induction xs) auto
  then show ?thesis by (simp add: exact_var_def)
qed

lemma np_mean_exact:
  "xs \<noteq> [] \<Longrightarrow>
   np_mean exact_arith \<lparr>dtype = dt, shape = sh, elems = map Fin xs\<rparr> = Fin (exact_mean xs)"
proof (cases xs)
  case Nil
  assume "xs \<noteq> []"
  with Nil show ?thesis by simp
next
  case (Cons x l)
  have nn: "\<not> list_ex is_nan (map Fin xs)" by (simp add: list_ex_iff)
  have fr: "map (fl_real \<circ> Fin) xs = xs" by (induction xs) auto
  show ?thesis
  proof (cases l)
    case Nil
    with Cons show ?thesis by (simp add: np_mean_def exact_mean_def)
  next
    case (Cons y l')
    with \<open>xs = x # l\<close> have xs: "map Fin xs = Fin x # Fin y # map Fin l'" by simp
    have "np_mean exact_arith \<lparr>dtype = dt, shape = sh, elems = map Fin xs\<rparr>
          = mean_impl exact_arith \<lparr>dtype = dt, shape = sh, elems = map Fin xs\<rparr>"
      using nn by (simp add: np_mean_def xs)
    also have "\<dots> = Fin (exact_mean xs)" by (simp add: exact_arith_def fr)
    finally show ?thesis .
  qed
qed

lemma np_std_exact:
  "xs \<noteq> [] \<Longrightarrow>
   np_std exact_arith \<lparr>dtype = dt, shape = sh, elems = map Fin xs\<rparr> = Fin (sqrt (exact_var xs))"
proof (cases xs)
  case Nil
  assume "xs \<noteq> []"
  with Nil show ?thesis by simp
next
  case (Cons x l)
  have nn: "\<not> list_ex (\<lambda>x. \<not> isfinite x) (map Fin xs)" by (simp add: list_ex_iff)
  have fr: "map (fl_real \<circ> Fin) xs = xs" by (induction xs) auto
  show ?thesis
  proof (cases l)
    case Nil
    with Cons show ?thesis by (simp add: np_std_def exact_var_def exact_mean_def)
  next
    case (Cons y l')
    with \<open>xs = x # l\<close> have xs: "map Fin xs = Fin x # Fin y # map Fin l'" by simp
    have "np_std exact_arith \<lparr>dtype = dt, shape = sh, elems = map Fin xs\<rparr>
          = std_impl exact_arith \<lparr>dtype = dt, shape = sh, elems = map Fin xs\<rparr>"
      using nn by (simp add: np_std_def xs)
    also have "\<dots> = Fin (sqrt (exact_var xs))" by (simp add: exact_arith_def fr)
    finally show ?thesis .
  qed
qed

lemma accurate_exact_arith: "accurate exact_arith"
  unfolding accurate_def
proof (intro allI impI)
  fix sh :: "nat list" and xs :: "real list"
  assume "xs \<noteq> [] \<and> length xs \<le> 1000 \<and> list_all (\<lambda>x. \<bar>x\<bar> \<le> 1) xs"
  then have ne: "xs \<noteq> []" by simp
  have "sqrt (exact_var xs) * sqrt (exact_var xs) = exact_var xs"
    using exact_var_nonneg[of xs] by simp
  then show "\<exists>m s. np_mean exact_arith \<lparr>dtype = DFloat, shape = sh, elems = map Fin xs\<rparr> = Fin m
              \<and> \<bar>m - exact_mean xs\<bar> \<le> 1 / 10 ^ 9
              \<and> np_std exact_arith \<lparr>dtype = DFloat, shape = sh, elems = map Fin xs\<rparr> = Fin s
              \<and> 0 \<le> s \<and> \<bar>s * s - exact_var xs\<bar> \<le> 1 / 10 ^ 9"
    using np_mean_exact[OF ne] np_std_exact[OF ne] exact_var_nonneg[of xs] by simp
qed

lemma accurateD:
  assumes "accurate np" "xs \<noteq> []" "length xs \<le> 1000" "list_all (\<lambda>x. \<bar>x\<bar> \<le> 1) xs"
  obtains m s where "np_mean np \<lparr>dtype = DFloat, shape = sh, elems = map Fin xs\<rparr> = Fin m"
    "\<bar>m - exact_mean xs\<bar> \<le> 1 / 10 ^ 9"
    "np_std np \<lparr>dtype = DFloat, shape = sh, elems = map Fin xs\<rparr> = Fin s"
    "0 \<le> s" "\<bar>s * s - exact_var xs\<bar> \<le> 1 / 10 ^ 9"
  using assms unfolding accurate_def by blast

lemma sqrt_bounds:
  fixes s v lo hi :: real
  assumes "0 \<le> s" "\<bar>s * s - v\<bar> \<le> e" "0 \<le> lo" "lo * lo < v - e" "0 \<le> hi" "v + e < hi * hi"
  shows "lo < s \<and> s < hi"
proof
  show "lo < s"
  proof (rule ccontr)
    assume "\<not> lo < s"
    then have "s \<le> lo" by simp
    then have "s * s \<le> lo * lo" using assms(1) by (intro mult_mono) simp_all
    with assms(2,4) show False by (simp add: abs_le_iff)
  qed
  show "s < hi"
  proof (rule ccontr)
    assume "\<not> s < hi"
    then have "hi \<le> s" by simp
    then have "hi * hi \<le> s * s" using assms(5) by (intro mult_mono) simp_all
    with assms(2,6) show False by (simp add: abs_le_iff)
  qed
qed

lemma abs_bounds:
  fixes m c e lo hi :: real
  shows "\<bar>m - c\<bar> \<le> e \<Longrightarrow> lo < c - e \<Longrightarrow> c + e < hi \<Longrightarrow> lo < m \<and> m < hi"
  by arith

lemma length_score_accurate:
  assumes "accurate np"
  shows "\<exists>m s. np_mean np \<lparr>dtype = DFloat, shape = [4], elems = [Fin 0.8, Fin 0.9, Fin 0.7, Fin 0.85]\<rparr> = Fin m
           \<and> np_std np \<lparr>dtype = DFloat, shape = [4], elems = [Fin 0.8, Fin 0.9, Fin 0.7, Fin 0.85]\<rparr> = Fin s
           \<and> 0.8124 < m \<and> m < 0.8126 \<and> 0.0739 < s \<and> s < 0.074"
proof -
  let ?xs = "[0.8, 0.9, 0.7, 0.85] :: real list"
  have h: "?xs \<noteq> []" "length ?xs \<le> 1000" "list_all (\<lambda>x. \<bar>x\<bar> \<le> 1) ?xs" by simp_all
  from accurateD[OF assms h, of "[4]"] obtain m s where
    m: "np_mean np \<lparr>dtype = DFloat, shape = [4], elems = map Fin ?xs\<rparr> = Fin m"
      "\<bar>m - exact_mean ?xs\<bar> \<le> 1 / 10 ^ 9"
    and s: "np_std np \<lparr>dtype = DFloat, shape = [4], elems = map Fin ?xs\<rparr> = Fin s"
      "0 \<le> s" "\<bar>s * s - exact_var ?xs\<bar> \<le> 1 / 10 ^ 9"
    by blast
  have em: "exact_mean ?xs = 0.8125" by (simp add: exact_mean_def)
  have ev: "exact_var ?xs = 7 / 1280" by (simp add: exact_var_def exact_mean_def)
  from m(2) have "\<bar>m - 0.8125\<bar> \<le> 1 / 10 ^ 9" unfolding em .
  then have mb: "0.8124 < m \<and> m < 0.8126" by (rule abs_bounds) simp_all
  from s(3) have s3: "\<bar>s * s - 7 / 1280\<bar> \<le> 1 / 10 ^ 9" unfolding ev .
  have sb: "0.0739 < s \<and> s < 0.074"
    by (rule sqrt_bounds[OF s(2) s3]) simp_all
  from m(1) s(1) mb sb show ?thesis by simp
qed

lemmas eval_defs = model_defs np_mean_def np_std_def

lemma Suc4: "Suc (Suc (Suc (Suc 0))) = 4"
  by simp

section \<open>Bounds of the mean, and series that the standalone function accepts\<close>




lemma finite_float_num: "finite_float v \<Longrightarrow> finite_num v \<and> is_float v"
  by (cases v rule: finite_float.cases) auto

lemma finite_floats:
  assumes "list_all finite_float vs"
  shows "list_all finite_num vs" and "vs \<noteq> [] \<Longrightarrow> series_array vs = float_array vs"
proof -
  show "list_all finite_num vs" using assms by (induction vs) (auto simp: finite_float_num)
  assume "vs \<noteq> []"
  then obtain v l where vs: "vs = v # l" by (cases vs) auto
  with assms have "is_float v" by (simp add: finite_float_num)
  then have "list_ex is_float vs" by (simp add: vs)
  then show "series_array vs = float_array vs" by (simp add: series_array_def float_array_def)
qed


lemma min_list_ne: "fs \<noteq> [] \<Longrightarrow> \<exists>x. min_list fs = Inr x"
  by (cases fs) auto

lemma max_list_ne: "fs \<noteq> [] \<Longrightarrow> \<exists>x. max_list fs = Inr x"
  by (cases fs) auto

lemma standalone_body_numeric_done:
  assumes "list_all numeric_scalar vs"
  shows "\<exists>m'. standalone_body np k (PList vs) m = Done m'"
proof (cases "vs = []")
  case True
  then show ?thesis
    by (simp add: standalone_body_def np_array_float_def seq_shape_def np_len_def)
next
  case False
  let ?a = "\<lparr>dtype = DFloat, shape = [length vs], elems = map (num_of np) vs\<rparr>"
  have arr: "np_array_float np vs = Inr ?a"
    using np_array_float_numeric[OF assms] by simp
  have len: "np_len ?a = Inr (length vs)" by (simp add: np_len_def)
  from False obtain mn where mn: "np_min ?a = Inr mn"
    using min_list_ne[of "map (num_of np) vs"] by (auto simp: np_min_def)
  from False obtain mx where mx: "np_max ?a = Inr mx"
    using max_list_ne[of "map (num_of np) vs"] by (auto simp: np_max_def)
  show ?thesis using False
    by (simp add: standalone_body_def arr len mn mx)
qed

lemma standalone_returns:
  assumes "list_all (\<lambda>(k, vs). list_all numeric_scalar vs) d"
  shows "\<exists>r. compute_reward_metrics_standalone np (series_dict d) = Inr r"
proof -
  have "list_all (\<lambda>(k, v). \<forall>m. \<exists>m'. standalone_body np k v m = Done m') (series_dict d)"
    using assms
    by (induction d) (auto simp: series_dict_def standalone_body_numeric_done)
  from standalone_loop_done[OF this, of "[]"] show ?thesis
    by (simp add: compute_reward_metrics_standalone_def)
qed


lemma singleton_stats:
  "np_mean np \<lparr>dtype = dt, shape = sh, elems = [Fin x]\<rparr> = Fin x"
  "np_std np \<lparr>dtype = dt, shape = sh, elems = [Fin x]\<rparr> = Fin 0"
  by (simp_all add: np_mean_def np_std_def)

lemma Suc2: "Suc (Suc 0) = 2"
  by simp

section \<open>A flat series with elements that are not finite\<close>



lemma filter_finite_all: "list_all finite_num (filter finite_num vs)"
  by (simp add: list_all_iff)



lemma after_signal_none_finite:
  assumes "list_all numeric_scalar vs" "filter finite_num vs = []"
  shows "after_signal np k vs m = m"
  using after_signal_numeric[OF assms(1), of np k m] assms(2) by simp







section \<open>Nested series\<close>

lemma after_signal_retained:
  assumes "list_all numeric_scalar vs" "filter finite_num vs \<noteq> []"
  shows "after_signal np k vs m =
     (if 1 < length (filter finite_num vs)
      then AList.update (metric_key k ''std'') (MFloat (np_std np (retained_array vs))) else id)
        (AList.update (metric_key k ''min'')
             (MFloat (Fin (Min (set (map value_of (filter finite_num vs))))))
        (AList.update (metric_key k ''max'')
             (MFloat (Fin (Max (set (map value_of (filter finite_num vs))))))
        (AList.update (metric_key k ''mean'') (MFloat (np_mean np (retained_array vs))) m)))"
proof -
  define fs where "fs = filter finite_num vs"
  from assms(2) have vne: "vs \<noteq> []" by auto
  have ne: "map value_of fs \<noteq> []" using assms(2) by (simp add: fs_def)
  have el: "elems (retained_array vs) = map Fin (map value_of fs)"
    "shape (retained_array vs) = [length (map value_of fs)]"
    by (simp_all add: retained_array_def fs_def)
  have "after_signal np k vs m = outcome_report (write_stats np k (retained_array vs) m)"
    using after_signal_numeric[OF assms(1), of np k m] assms(2) numeric_dtype[OF vne assms(1)]
    by (simp add: retained_array_def)
  then show ?thesis unfolding fs_def[symmetric]
    by (simp only: write_stats_Fin[OF ne el] outcome_report.simps length_map set_map)
qed

lemma after_signal_retained_lookup:
  assumes "list_all numeric_scalar vs" "filter finite_num vs \<noteq> []"
  shows "map_of (after_signal np k vs []) (''reward/'' @ k @ ''/mean'')
           = Some (MFloat (np_mean np (retained_array vs)))"
    and "map_of (after_signal np k vs []) (''reward/'' @ k @ ''/max'')
           = Some (MFloat (Fin (Max (set (map value_of (filter finite_num vs))))))"
    and "map_of (after_signal np k vs []) (''reward/'' @ k @ ''/min'')
           = Some (MFloat (Fin (Min (set (map value_of (filter finite_num vs))))))"
    and "map_of (after_signal np k vs []) (''reward/'' @ k @ ''/std'') =
           (if 1 < length (filter finite_num vs)
            then Some (MFloat (np_std np (retained_array vs))) else None)"
    and "map_of (after_signal np k vs []) (''reward/'' @ k @ ''/count'') = None"
  unfolding after_signal_retained[OF assms]
  by (simp_all add: update_conv' metric_key_def)

lemma numeric_seq_iter:
  "numeric_seq v \<Longrightarrow> py_iter v = Inr (seq_items v) \<and> is_list_or_tuple v \<and> \<not> is_tensor v"
  by (cases v) auto

lemma collect_iter:
  "list_all numeric_seq vs \<Longrightarrow> collect (map py_iter vs) = Inr (map seq_items vs)"
  by (induction vs) (auto simp: numeric_seq_iter)

lemma numeric_seq_items: "numeric_seq v \<Longrightarrow> list_all numeric_scalar (seq_items v)"
  by (cases v) auto

lemma nested_items_numeric:
  "list_all numeric_seq vs \<Longrightarrow> list_all numeric_scalar (concat (map seq_items vs))"
  by (induction vs) (auto simp: numeric_seq_items)

lemma length_concat_items:
  "length (concat (map seq_items vs)) = sum_list (map (\<lambda>v. length (seq_items v)) vs)"
  by (induction vs) auto

lemma after_signal_nested:
  assumes "values \<noteq> []" "list_all numeric_seq values"
  shows "after_signal np k values m = after_signal np k (concat (map seq_items values)) m"
proof -
  define items where "items = concat (map seq_items values)"
  from assms obtain v0 rest where v: "values = v0 # rest" and v0: "numeric_seq v0"
    by (cases "values") auto
  have head: "is_list_or_tuple v0" "\<not> is_tensor v0" using numeric_seq_iter[OF v0] by simp_all
  have num: "list_all numeric_scalar items"
    unfolding items_def by (rule nested_items_numeric[OF assms(2)])
  have nested: "values_array np values = np_array np items"
    using head collect_iter[OF assms(2)] by (simp add: values_array_def v items_def)
  show ?thesis
  proof (cases "items = []")
    case True
    have "np_array np [] = Inr \<lparr>dtype = DFloat, shape = [0], elems = []\<rparr>"
      by (simp add: np_array_def seq_shape_def result_dtype_def)
    then have "signal_body np k values m = Done m"
      using nested True by (simp add: signal_body_def np_len_def)
    then show ?thesis using assms(1) True unfolding items_def[symmetric]
      by (simp add: after_signal_def)
  next
    case False
    then obtain i0 irest where i: "items = i0 # irest" by (cases items) auto
    with num have "numeric_scalar i0" by simp
    then have h: "\<not> is_list_or_tuple i0" "\<not> is_tensor i0" by (cases i0; simp)+
    have "values_array np items = np_array np items"
      unfolding i by (rule values_array_scalar_head[OF h])
    with nested have "signal_body np k values m = signal_body np k items m"
      by (simp add: signal_body_def)
    then show ?thesis using assms(1) False unfolding items_def[symmetric]
      by (simp add: after_signal_def)
  qed
qed

lemma filter_length_le_items:
  "length (filter finite_num (concat (map seq_items vs)))
   \<le> sum_list (map (\<lambda>v. length (seq_items v)) vs)"
  using length_filter_le[of finite_num "concat (map seq_items vs)"]
  by (simp only: length_concat_items)

section \<open>Series that are not numeric\<close>

lemma after_signal_non_numeric:
  assumes "list_all non_numeric vs"
  shows "after_signal np k vs m = m"
proof (cases vs)
  case Nil
  then show ?thesis by (simp add: after_signal_def)
next
  case (Cons a l)
  from assms Cons have a: "non_numeric a" by simp
  then have h: "\<not> is_list_or_tuple a" "\<not> is_tensor a" by (cases a; simp)+
  have sh: "\<And>v. v \<in> set vs \<Longrightarrow> np_shape v = Some [] \<and> np_leaves v = [v]"
    using assms non_numeric_shape by (simp add: list_all_iff)
  have arr: "values_array np vs
      = Inr \<lparr>dtype = result_dtype vs, shape = [length vs], elems = map (num_of np) vs\<rparr>"
    unfolding Cons values_array_scalar_head[OF h] using np_array_flat[of vs np, OF sh] Cons by simp
  have num: "\<not> is_number (result_dtype vs)" using non_numeric_dtype[of vs] assms Cons by simp
  from Cons have ne: "vs \<noteq> []" by simp
  show ?thesis using ne
    by (simp add: after_signal_def signal_body_def arr num)
qed

lemma str_to_float:
  "is_str v \<Longrightarrow> to_float np v = Inl ValueError \<or> (\<exists>f. to_float np v = Inr f)"
  by (cases v) (auto split: option.splits)

lemma text_only_to_float: "text_only v \<Longrightarrow> to_float np v = Inl ValueError"
  by (cases v) auto

lemma collect_text:
  "list_all is_str vs \<Longrightarrow> list_ex text_only vs \<Longrightarrow>
   collect (map (to_float np) vs) = Inl ValueError"
proof (induction vs)
  case Nil
  then show ?case by simp
next
  case (Cons a vs)
  from Cons.prems(1) have a: "is_str a" and rest: "list_all is_str vs" by simp_all
  show ?case
  proof (cases "text_only a")
    case True
    then show ?thesis by (simp add: text_only_to_float)
  next
    case False
    with Cons.prems(2) have "list_ex text_only vs" by simp
    from Cons.IH[OF rest this] str_to_float[OF a, of np] show ?thesis by auto
  qed
qed

lemma standalone_body_text:
  assumes "list_all is_str vs" "list_ex text_only vs"
  shows "standalone_body np k (PList vs) m = Raised ValueError m"
proof -
  have sh: "np_shape x = Some [] \<and> np_leaves x = [x]" if "x \<in> set vs" for x
  proof -
    from assms(1) that have "is_str x" unfolding list_all_iff by blast
    then show ?thesis by (rule is_str_shape)
  qed
  have "seq_shape (map np_shape vs) = Some [length vs]" using sh by (intro flat_shape) simp
  moreover have "concat (map np_leaves vs) = vs" using sh by (intro flat_leaves) simp
  ultimately have "np_array_float np vs = Inl ValueError"
    using collect_text[OF assms] by (simp add: np_array_float_def)
  then show ?thesis by (simp add: standalone_body_def)
qed

lemma series_dict_append:
  "series_dict (d1 @ (k, vs) # d2) = series_dict d1 @ (k, PList vs) # series_dict d2"
  "series_dict (d1 @ d2) = series_dict d1 @ series_dict d2"
  by (simp_all add: series_dict_def)

lemma standalone_eq_loop:
  "compute_reward_metrics_standalone np d = standalone_loop np d []"
  by (simp add: compute_reward_metrics_standalone_def)

lemma standalone_skip_text:
  assumes "list_all is_str vs" "list_ex text_only vs"
  shows "compute_reward_metrics_standalone np (series_dict (d1 @ (k, vs) # d2))
         = compute_reward_metrics_standalone np (series_dict (d1 @ d2))"
proof -
  have step: "standalone_loop np ((k, PList vs) # series_dict d2) m
              = standalone_loop np (series_dict d2) m" for m
    by (simp add: standalone_body_text[OF assms])
  have l: "compute_reward_metrics_standalone np (series_dict (d1 @ (k, vs) # d2))
      = (case standalone_loop np (series_dict d1) [] of
           Inl e \<Rightarrow> Inl e
         | Inr m' \<Rightarrow> standalone_loop np ((k, PList vs) # series_dict d2) m')"
    by (simp only: standalone_eq_loop series_dict_append(1) standalone_loop_append)
  have r: "compute_reward_metrics_standalone np (series_dict (d1 @ d2))
      = (case standalone_loop np (series_dict d1) [] of
           Inl e \<Rightarrow> Inl e
         | Inr m' \<Rightarrow> standalone_loop np (series_dict d2) m')"
    by (simp only: standalone_eq_loop series_dict_append(2) standalone_loop_append)
  show ?thesis by (simp only: l r step)
qed

section \<open>The two functions on the same series of finite floats\<close>

lemma single_signal_le:
  assumes fin: "list_all finite_float vs" and x: "x \<in> signal_keys k"
    and y: "map_of (after_signal np k vs []) x = Some y"
  shows "map_of (after_signal_standalone np k (PList vs) []) x = Some y"
proof (cases "vs = []")
  case True
  with y show ?thesis by (simp add: after_signal_nil)
next
  case False
  note num = finite_floats(1)[OF fin]
  note arr = finite_floats(2)[OF fin False]
  note LA = after_signal_finite_lookup[OF num False, of np k, unfolded arr]
  note LB = after_signal_standalone_finite_lookup[OF num False, of np k]
  from x consider "x = ''reward/'' @ k @ ''/mean''" | "x = ''reward/'' @ k @ ''/max''"
    | "x = ''reward/'' @ k @ ''/min''" | "x = ''reward/'' @ k @ ''/std''"
    | "x = ''reward/'' @ k @ ''/count''"
    by (auto simp: signal_keys_def stat_names_def metric_key_def)
  then show ?thesis
  proof cases
    case 1 with y LA(1) LB(1) show ?thesis by simp
  next
    case 2 with y LA(2) LB(2) show ?thesis by simp
  next
    case 3 with y LA(3) LB(3) show ?thesis by simp
  next
    case 4 with y LA(4) LB(4) show ?thesis by (simp split: if_splits)
  next
    case 5 with y LA(5) show ?thesis by simp
  qed
qed

lemma finite_floats_numeric:
  "list_all (\<lambda>(k, vs). list_all finite_float vs) d \<Longrightarrow>
   list_all (\<lambda>(k, vs). list_all numeric_scalar vs) d"
proof -
  have "list_all numeric_scalar vs" if "list_all finite_float vs" for vs
    using finite_series(1)[OF finite_floats(1)[OF that]] .
  then show "list_all (\<lambda>(k, vs). list_all finite_float vs) d \<Longrightarrow>
   list_all (\<lambda>(k, vs). list_all numeric_scalar vs) d"
    by (auto simp: list_all_iff)
qed

section \<open>A failure in the middle of the writes\<close>

text \<open>
  C1 at the input \<^verbatim>\<open>{"x": [[], []]}\<close>. The array has shape (2, 0): its length is 2, its mean
  and standard deviation are NaN, and \<^verbatim>\<open>np.min\<close> raises ValueError.
  \<^verbatim>\<open>compute_reward_metrics_standalone\<close> catches the error after it has written two of the
  five metrics, so the signal that failed is in the report.
\<close>

theorem standalone_partial_report:
  "compute_reward_metrics_standalone np (series_dict [(''x'', [PList [], PList []])])
   = Inr [(''reward/x/mean'', MFloat NaN), (''reward/x/std'', MFloat NaN)]"
  by (simp add: eval_defs)

section \<open>A series of finite numbers\<close>




section \<open>A series of one element\<close>

text \<open>
  C3 (as amended). Let a signal of the input dict (whose keys are distinct) have a series
  of exactly one finite number \<open>x\<close> (a finite float, or an integer of magnitude at most
  \<open>2^53\<close>). Then \<^verbatim>\<open>compute_reward_metrics\<close> returns a report in which mean, max and min of
  the signal all equal \<open>x\<close>, and which has neither std nor count for it. Every report that
  \<^verbatim>\<open>compute_reward_metrics_standalone\<close> returns has mean, max and min equal to \<open>x\<close>, count
  1, and also std, equal to 0.0; it returns a report when all the series of the dict are
  lists of floats and of such integers.
\<close>

theorem single_element_statistics:
  assumes "distinct (map fst d)" and "(name, [v]) \<in> set d" and "finite_num v"
  shows "(\<exists>r. compute_reward_metrics np d = Inr r
           \<and> map_of r (''reward/'' @ name @ ''/mean'') = Some (MFloat (Fin (value_of v)))
           \<and> map_of r (''reward/'' @ name @ ''/max'') = Some (MFloat (Fin (value_of v)))
           \<and> map_of r (''reward/'' @ name @ ''/min'') = Some (MFloat (Fin (value_of v)))
           \<and> map_of r (''reward/'' @ name @ ''/std'') = None
           \<and> map_of r (''reward/'' @ name @ ''/count'') = None)
       \<and> (\<forall>r'. compute_reward_metrics_standalone np (series_dict d) = Inr r' \<longrightarrow>
             map_of r' (''reward/'' @ name @ ''/mean'') = Some (MFloat (Fin (value_of v)))
           \<and> map_of r' (''reward/'' @ name @ ''/max'') = Some (MFloat (Fin (value_of v)))
           \<and> map_of r' (''reward/'' @ name @ ''/min'') = Some (MFloat (Fin (value_of v)))
           \<and> map_of r' (''reward/'' @ name @ ''/std'') = Some (MFloat (Fin 0))
           \<and> map_of r' (''reward/'' @ name @ ''/count'') = Some (MInt 1))
       \<and> (list_all (\<lambda>(k, s). list_all numeric_scalar s) d \<longrightarrow>
             (\<exists>r'. compute_reward_metrics_standalone np (series_dict d) = Inr r'))"
proof (intro conjI allI impI)
  have fin: "list_all finite_num [v]" and ne: "[v] \<noteq> []" using assms(3) by simp_all
  obtain r where r: "compute_reward_metrics np d = Inr r" by (simp add: compute_eq_fold)
  note A = report_lookup[OF assms(1,2) _ r]
  note LA = after_signal_finite_lookup[OF fin ne, of np name]
  have "map_of r (''reward/'' @ name @ ''/mean'') = Some (MFloat (Fin (value_of v)))"
    using A[OF stat_keys_mem(1)] LA(1) by (simp add: series_array_def singleton_stats)
  moreover have "map_of r (''reward/'' @ name @ ''/max'') = Some (MFloat (Fin (value_of v)))"
    using A[OF stat_keys_mem(2)] LA(2) by simp
  moreover have "map_of r (''reward/'' @ name @ ''/min'') = Some (MFloat (Fin (value_of v)))"
    using A[OF stat_keys_mem(3)] LA(3) by simp
  moreover have "map_of r (''reward/'' @ name @ ''/std'') = None"
    using A[OF stat_keys_mem(4)] LA(4) by simp
  moreover have "map_of r (''reward/'' @ name @ ''/count'') = None"
    using A[OF stat_keys_mem(5)] LA(5) by simp
  ultimately show "\<exists>r. compute_reward_metrics np d = Inr r
           \<and> map_of r (''reward/'' @ name @ ''/mean'') = Some (MFloat (Fin (value_of v)))
           \<and> map_of r (''reward/'' @ name @ ''/max'') = Some (MFloat (Fin (value_of v)))
           \<and> map_of r (''reward/'' @ name @ ''/min'') = Some (MFloat (Fin (value_of v)))
           \<and> map_of r (''reward/'' @ name @ ''/std'') = None
           \<and> map_of r (''reward/'' @ name @ ''/count'') = None"
    using r by blast
next
  fix r'
  assume r': "compute_reward_metrics_standalone np (series_dict d) = Inr r'"
  have fin: "list_all finite_num [v]" and ne: "[v] \<noteq> []" using assms(3) by simp_all
  have d': "distinct (map fst (series_dict d))" using assms(1) by (simp add: series_dict_fst)
  note B = standalone_lookup[OF d' series_dict_mem[OF assms(2)] _ r']
  note LB = after_signal_standalone_finite_lookup[OF fin ne, of np name]
  show "map_of r' (''reward/'' @ name @ ''/mean'') = Some (MFloat (Fin (value_of v)))"
    using B[OF stat_keys_mem(1)] LB(1) by (simp add: float_array_def singleton_stats)
  show "map_of r' (''reward/'' @ name @ ''/max'') = Some (MFloat (Fin (value_of v)))"
    using B[OF stat_keys_mem(2)] LB(2) by simp
  show "map_of r' (''reward/'' @ name @ ''/min'') = Some (MFloat (Fin (value_of v)))"
    using B[OF stat_keys_mem(3)] LB(3) by simp
  show "map_of r' (''reward/'' @ name @ ''/std'') = Some (MFloat (Fin 0))"
    using B[OF stat_keys_mem(4)] LB(4) by (simp add: float_array_def singleton_stats)
  show "map_of r' (''reward/'' @ name @ ''/count'') = Some (MInt 1)"
    using B[OF stat_keys_mem(5)] LB(5) by simp
next
  assume "list_all (\<lambda>(k, s). list_all numeric_scalar s) d"
  then show "\<exists>r'. compute_reward_metrics_standalone np (series_dict d) = Inr r'"
    by (rule standalone_returns)
qed

text \<open>The signal \<^verbatim>\<open>"single_value": [0.42]\<close> of the fourth test, after a signal with an
  empty series.\<close>

theorem single_element_statistics_witness:
  "\<forall>np. distinct (map fst [(''empty_list'', []), (''single_value'', [PFloat (Fin 0.42)])])
   \<and> (''single_value'', [PFloat (Fin 0.42)])
        \<in> set [(''empty_list'', []), (''single_value'', [PFloat (Fin 0.42)])]
   \<and> finite_num (PFloat (Fin 0.42))
   \<and> list_all (\<lambda>(k, s). list_all numeric_scalar s)
        [(''empty_list'', []), (''single_value'', [PFloat (Fin 0.42)])]
   \<and> (\<exists>r r'.
         compute_reward_metrics np [(''empty_list'', []), (''single_value'', [PFloat (Fin 0.42)])] = Inr r
       \<and> compute_reward_metrics_standalone np
           (series_dict [(''empty_list'', []), (''single_value'', [PFloat (Fin 0.42)])]) = Inr r'
       \<and> map_of r ''reward/single_value/mean'' = Some (MFloat (Fin 0.42))
       \<and> map_of r ''reward/single_value/max'' = Some (MFloat (Fin 0.42))
       \<and> map_of r ''reward/single_value/min'' = Some (MFloat (Fin 0.42))
       \<and> map_of r ''reward/single_value/std'' = None
       \<and> map_of r ''reward/single_value/count'' = None
       \<and> map_of r' ''reward/single_value/mean'' = Some (MFloat (Fin 0.42))
       \<and> map_of r' ''reward/single_value/std'' = Some (MFloat (Fin 0))
       \<and> map_of r' ''reward/single_value/count'' = Some (MInt 1))"
proof
  fix np
  let ?d = "[(''empty_list'', []), (''single_value'', [PFloat (Fin 0.42)])]"
  have h: "distinct (map fst ?d)" "(''single_value'', [PFloat (Fin 0.42)]) \<in> set ?d"
    "finite_num (PFloat (Fin 0.42))"
    by simp_all
  have g: "list_all (\<lambda>(k, s). list_all numeric_scalar s) ?d" by simp
  note t = single_element_statistics[OF h, of np]
  from t obtain r where r: "compute_reward_metrics np ?d = Inr r"
    "map_of r (''reward/'' @ ''single_value'' @ ''/mean'') = Some (MFloat (Fin (value_of (PFloat (Fin 0.42)))))"
    "map_of r (''reward/'' @ ''single_value'' @ ''/max'') = Some (MFloat (Fin (value_of (PFloat (Fin 0.42)))))"
    "map_of r (''reward/'' @ ''single_value'' @ ''/min'') = Some (MFloat (Fin (value_of (PFloat (Fin 0.42)))))"
    "map_of r (''reward/'' @ ''single_value'' @ ''/std'') = None"
    "map_of r (''reward/'' @ ''single_value'' @ ''/count'') = None"
    by blast
  from t g obtain r' where r': "compute_reward_metrics_standalone np (series_dict ?d) = Inr r'"
    by blast
  with t have b:
    "map_of r' (''reward/'' @ ''single_value'' @ ''/mean'') = Some (MFloat (Fin (value_of (PFloat (Fin 0.42)))))"
    "map_of r' (''reward/'' @ ''single_value'' @ ''/std'') = Some (MFloat (Fin 0))"
    "map_of r' (''reward/'' @ ''single_value'' @ ''/count'') = Some (MInt 1)"
    by blast+
  have "\<exists>r r'.
         compute_reward_metrics np ?d = Inr r
       \<and> compute_reward_metrics_standalone np (series_dict ?d) = Inr r'
       \<and> map_of r ''reward/single_value/mean'' = Some (MFloat (Fin 0.42))
       \<and> map_of r ''reward/single_value/max'' = Some (MFloat (Fin 0.42))
       \<and> map_of r ''reward/single_value/min'' = Some (MFloat (Fin 0.42))
       \<and> map_of r ''reward/single_value/std'' = None
       \<and> map_of r ''reward/single_value/count'' = None
       \<and> map_of r' ''reward/single_value/mean'' = Some (MFloat (Fin 0.42))
       \<and> map_of r' ''reward/single_value/std'' = Some (MFloat (Fin 0))
       \<and> map_of r' ''reward/single_value/count'' = Some (MInt 1)"
    using r r' b by (intro exI[of _ r] exI[of _ r']) simp
  with h g show "distinct (map fst ?d)
   \<and> (''single_value'', [PFloat (Fin 0.42)]) \<in> set ?d
   \<and> finite_num (PFloat (Fin 0.42))
   \<and> list_all (\<lambda>(k, s). list_all numeric_scalar s) ?d
   \<and> (\<exists>r r'.
         compute_reward_metrics np ?d = Inr r
       \<and> compute_reward_metrics_standalone np (series_dict ?d) = Inr r'
       \<and> map_of r ''reward/single_value/mean'' = Some (MFloat (Fin 0.42))
       \<and> map_of r ''reward/single_value/max'' = Some (MFloat (Fin 0.42))
       \<and> map_of r ''reward/single_value/min'' = Some (MFloat (Fin 0.42))
       \<and> map_of r ''reward/single_value/std'' = None
       \<and> map_of r ''reward/single_value/count'' = None
       \<and> map_of r' ''reward/single_value/mean'' = Some (MFloat (Fin 0.42))
       \<and> map_of r' ''reward/single_value/std'' = Some (MFloat (Fin 0))
       \<and> map_of r' ''reward/single_value/count'' = Some (MInt 1))"
    by (intro conjI)
qed

text \<open>
  C3 as stated fails for \<^verbatim>\<open>compute_reward_metrics_standalone\<close>, whatever the arithmetic:
  for \<^verbatim>\<open>{"single_value": [0.42]}\<close> its report has a std key, with value 0.0.
\<close>

theorem single_element_counterexample:
  "\<forall>np. compute_reward_metrics_standalone np (series_dict [(''single_value'', [PFloat (Fin 0.42)])])
     = Inr [(''reward/single_value/mean'', MFloat (Fin 0.42)),
            (''reward/single_value/std'', MFloat (Fin 0)),
            (''reward/single_value/min'', MFloat (Fin 0.42)),
            (''reward/single_value/max'', MFloat (Fin 0.42)),
            (''reward/single_value/count'', MInt 1)]"
  by (simp add: eval_defs)

section \<open>Elements that are not finite\<close>




section \<open>Nested series of numbers\<close>

text \<open>
  C5 (as amended). Let a signal of the input dict (whose keys are distinct) have a
  non-empty series whose elements are lists or tuples of numbers (floats, integers of
  magnitude at most \<open>2^53\<close>). Then \<^verbatim>\<open>compute_reward_metrics\<close> flattens one level: its report
  is the report of the dict in which the series is replaced by the concatenation of the
  inner sequences. The statistics of the signal are those of the finite inner scalars: no
  metric when none is finite; otherwise the mean numpy computes of their array, their
  largest and smallest as max and min, the standard deviation if and only if at least two
  are finite, and no count. So the number of values used is the number of finite inner
  scalars; it is at most the total number of inner scalars, and equal to it when all inner
  scalars are finite (the array is then that of the concatenation).
\<close>

theorem nested_series_flattened:
  assumes "distinct (map fst (d1 @ (name, vs) # d2))" and "vs \<noteq> []"
    and "list_all numeric_seq vs"
  shows "compute_reward_metrics np (d1 @ (name, vs) # d2)
           = compute_reward_metrics np (d1 @ (name, concat (map seq_items vs)) # d2)
       \<and> (\<exists>r. compute_reward_metrics np (d1 @ (name, vs) # d2) = Inr r
           \<and> (if filter finite_num (concat (map seq_items vs)) = []
               then (\<forall>st \<in> set stat_names. map_of r (''reward/'' @ name @ ''/'' @ st) = None)
               else map_of r (''reward/'' @ name @ ''/mean'')
                      = Some (MFloat (np_mean np (retained_array (concat (map seq_items vs)))))
                  \<and> map_of r (''reward/'' @ name @ ''/max'')
                      = Some (MFloat (Fin (Max (set (map value_of
                           (filter finite_num (concat (map seq_items vs))))))))
                  \<and> map_of r (''reward/'' @ name @ ''/min'')
                      = Some (MFloat (Fin (Min (set (map value_of
                           (filter finite_num (concat (map seq_items vs))))))))
                  \<and> map_of r (''reward/'' @ name @ ''/std'')
                      = (if 1 < length (filter finite_num (concat (map seq_items vs)))
                         then Some (MFloat (np_std np (retained_array (concat (map seq_items vs)))))
                         else None)
                  \<and> map_of r (''reward/'' @ name @ ''/count'') = None))
       \<and> shape (retained_array (concat (map seq_items vs)))
           = [length (filter finite_num (concat (map seq_items vs)))]
       \<and> length (filter finite_num (concat (map seq_items vs)))
           \<le> sum_list (map (\<lambda>v. length (seq_items v)) vs)
       \<and> (list_all finite_num (concat (map seq_items vs)) \<longrightarrow>
             length (filter finite_num (concat (map seq_items vs)))
               = sum_list (map (\<lambda>v. length (seq_items v)) vs)
           \<and> retained_array (concat (map seq_items vs)) = series_array (concat (map seq_items vs)))"
proof (intro conjI impI)
  define items where "items = concat (map seq_items vs)"
  have num: "list_all numeric_scalar items"
    unfolding items_def by (rule nested_items_numeric[OF assms(3)])
  have nested: "after_signal np name vs m = after_signal np name items m" for m
    unfolding items_def by (rule after_signal_nested[OF assms(2,3)])
  have "compute_reward_metrics np (d1 @ (name, vs) # d2)
           = compute_reward_metrics np (d1 @ (name, items) # d2)"
    by (simp only: compute_append nested)
  then show "compute_reward_metrics np (d1 @ (name, vs) # d2)
           = compute_reward_metrics np (d1 @ (name, concat (map seq_items vs)) # d2)"
    unfolding items_def .
  obtain r where r: "compute_reward_metrics np (d1 @ (name, vs) # d2) = Inr r"
    by (simp add: compute_eq_fold)
  have mem: "(name, vs) \<in> set (d1 @ (name, vs) # d2)" by simp
  note A = report_lookup[OF assms(1) mem _ r, unfolded nested]
  have "if filter finite_num items = []
        then (\<forall>st \<in> set stat_names. map_of r (''reward/'' @ name @ ''/'' @ st) = None)
        else map_of r (''reward/'' @ name @ ''/mean'') = Some (MFloat (np_mean np (retained_array items)))
           \<and> map_of r (''reward/'' @ name @ ''/max'')
               = Some (MFloat (Fin (Max (set (map value_of (filter finite_num items))))))
           \<and> map_of r (''reward/'' @ name @ ''/min'')
               = Some (MFloat (Fin (Min (set (map value_of (filter finite_num items))))))
           \<and> map_of r (''reward/'' @ name @ ''/std'')
               = (if 1 < length (filter finite_num items)
                  then Some (MFloat (np_std np (retained_array items))) else None)
           \<and> map_of r (''reward/'' @ name @ ''/count'') = None"
  proof (cases "filter finite_num items = []")
    case True
    have "map_of r (''reward/'' @ name @ ''/'' @ st) = None" if "st \<in> set stat_names" for st
      using A[OF stat_key_in_signal_keys[OF that]] after_signal_none_finite[OF num True]
      by simp
    with True show ?thesis by simp
  next
    case False
    note LA = after_signal_retained_lookup[OF num False, of np name]
    have "map_of r (''reward/'' @ name @ ''/mean'') = Some (MFloat (np_mean np (retained_array items)))"
      by (simp only: A[OF stat_keys_mem(1)] LA(1))
    moreover have "map_of r (''reward/'' @ name @ ''/max'')
               = Some (MFloat (Fin (Max (set (map value_of (filter finite_num items))))))"
      by (simp only: A[OF stat_keys_mem(2)] LA(2))
    moreover have "map_of r (''reward/'' @ name @ ''/min'')
               = Some (MFloat (Fin (Min (set (map value_of (filter finite_num items))))))"
      by (simp only: A[OF stat_keys_mem(3)] LA(3))
    moreover have "map_of r (''reward/'' @ name @ ''/std'')
               = (if 1 < length (filter finite_num items)
                  then Some (MFloat (np_std np (retained_array items))) else None)"
      by (simp only: A[OF stat_keys_mem(4)] LA(4))
    moreover have "map_of r (''reward/'' @ name @ ''/count'') = None"
      by (simp only: A[OF stat_keys_mem(5)] LA(5))
    ultimately show ?thesis using False by simp
  qed
  with r show "\<exists>r. compute_reward_metrics np (d1 @ (name, vs) # d2) = Inr r
           \<and> (if filter finite_num (concat (map seq_items vs)) = []
               then (\<forall>st \<in> set stat_names. map_of r (''reward/'' @ name @ ''/'' @ st) = None)
               else map_of r (''reward/'' @ name @ ''/mean'')
                      = Some (MFloat (np_mean np (retained_array (concat (map seq_items vs)))))
                  \<and> map_of r (''reward/'' @ name @ ''/max'')
                      = Some (MFloat (Fin (Max (set (map value_of
                           (filter finite_num (concat (map seq_items vs))))))))
                  \<and> map_of r (''reward/'' @ name @ ''/min'')
                      = Some (MFloat (Fin (Min (set (map value_of
                           (filter finite_num (concat (map seq_items vs))))))))
                  \<and> map_of r (''reward/'' @ name @ ''/std'')
                      = (if 1 < length (filter finite_num (concat (map seq_items vs)))
                         then Some (MFloat (np_std np (retained_array (concat (map seq_items vs)))))
                         else None)
                  \<and> map_of r (''reward/'' @ name @ ''/count'') = None)"
    unfolding items_def by blast
next
  show "shape (retained_array (concat (map seq_items vs)))
           = [length (filter finite_num (concat (map seq_items vs)))]"
    by (simp only: retained_array_def ndarray.simps)
next
  show "length (filter finite_num (concat (map seq_items vs)))
           \<le> sum_list (map (\<lambda>v. length (seq_items v)) vs)"
    by (rule filter_length_le_items)
next
  assume fin: "list_all finite_num (concat (map seq_items vs))"
  show "length (filter finite_num (concat (map seq_items vs)))
               = sum_list (map (\<lambda>v. length (seq_items v)) vs)"
    by (simp only: finite_series(2)[OF fin] length_concat_items)
  show "retained_array (concat (map seq_items vs)) = series_array (concat (map seq_items vs))"
    by (simp only: retained_array_def series_array_def finite_series(2)[OF fin])
qed

text \<open>The input \<^verbatim>\<open>{"nested_scores": [[0.1, 0.2], [0.3, 0.4], [0.5, 0.6]]}\<close> of the third
  test: three samples, six inner scalars, and the statistics of the six.\<close>

theorem nested_series_flattened_witness:
  "\<forall>np. distinct (map fst ([] @ (''nested_scores'',
          [PList [PFloat (Fin 0.1), PFloat (Fin 0.2)], PList [PFloat (Fin 0.3), PFloat (Fin 0.4)],
           PList [PFloat (Fin 0.5), PFloat (Fin 0.6)]]) # []))
   \<and> list_all numeric_seq
          [PList [PFloat (Fin 0.1), PFloat (Fin 0.2)], PList [PFloat (Fin 0.3), PFloat (Fin 0.4)],
           PList [PFloat (Fin 0.5), PFloat (Fin 0.6)]]
   \<and> list_all finite_num (concat (map seq_items
          [PList [PFloat (Fin 0.1), PFloat (Fin 0.2)], PList [PFloat (Fin 0.3), PFloat (Fin 0.4)],
           PList [PFloat (Fin 0.5), PFloat (Fin 0.6)]]))
   \<and> sum_list (map (\<lambda>v. length (seq_items v))
          [PList [PFloat (Fin 0.1), PFloat (Fin 0.2)], PList [PFloat (Fin 0.3), PFloat (Fin 0.4)],
           PList [PFloat (Fin 0.5), PFloat (Fin 0.6)]]) = 6
   \<and> compute_reward_metrics np [(''nested_scores'',
          [PList [PFloat (Fin 0.1), PFloat (Fin 0.2)], PList [PFloat (Fin 0.3), PFloat (Fin 0.4)],
           PList [PFloat (Fin 0.5), PFloat (Fin 0.6)]])]
     = compute_reward_metrics np [(''nested_scores'',
          [PFloat (Fin 0.1), PFloat (Fin 0.2), PFloat (Fin 0.3), PFloat (Fin 0.4),
           PFloat (Fin 0.5), PFloat (Fin 0.6)])]
   \<and> (\<exists>r. compute_reward_metrics np [(''nested_scores'',
          [PList [PFloat (Fin 0.1), PFloat (Fin 0.2)], PList [PFloat (Fin 0.3), PFloat (Fin 0.4)],
           PList [PFloat (Fin 0.5), PFloat (Fin 0.6)]])] = Inr r
        \<and> map_of r ''reward/nested_scores/mean'' = Some (MFloat (np_mean np
             \<lparr>dtype = DFloat, shape = [6],
              elems = [Fin 0.1, Fin 0.2, Fin 0.3, Fin 0.4, Fin 0.5, Fin 0.6]\<rparr>))
        \<and> map_of r ''reward/nested_scores/max'' = Some (MFloat (Fin 0.6))
        \<and> map_of r ''reward/nested_scores/min'' = Some (MFloat (Fin 0.1))
        \<and> map_of r ''reward/nested_scores/std'' = Some (MFloat (np_std np
             \<lparr>dtype = DFloat, shape = [6],
              elems = [Fin 0.1, Fin 0.2, Fin 0.3, Fin 0.4, Fin 0.5, Fin 0.6]\<rparr>))
        \<and> map_of r ''reward/nested_scores/count'' = None)"
proof
  fix np
  let ?vs = "[PList [PFloat (Fin 0.1), PFloat (Fin 0.2)], PList [PFloat (Fin 0.3), PFloat (Fin 0.4)],
           PList [PFloat (Fin 0.5), PFloat (Fin 0.6)]]"
  let ?items = "[PFloat (Fin 0.1), PFloat (Fin 0.2), PFloat (Fin 0.3), PFloat (Fin 0.4),
           PFloat (Fin 0.5), PFloat (Fin 0.6)]"
  let ?a = "\<lparr>dtype = DFloat, shape = [6],
              elems = [Fin 0.1, Fin 0.2, Fin 0.3, Fin 0.4, Fin 0.5, Fin 0.6]\<rparr>"
  have h: "distinct (map fst ([] @ (''nested_scores'', ?vs) # []))" "?vs \<noteq> []"
    "list_all numeric_seq ?vs"
    by simp_all
  have items: "concat (map seq_items ?vs) = ?items" by simp
  have fin: "list_all finite_num (concat (map seq_items ?vs))" by simp
  have total: "sum_list (map (\<lambda>v. length (seq_items v)) ?vs) = 6" by simp
  have f: "filter finite_num ?items = ?items" by simp
  have arr: "retained_array ?items = ?a" by (simp add: retained_array_def)
  have mx: "Max (set (map value_of ?items)) = 0.6" and mn: "Min (set (map value_of ?items)) = 0.1"
    by simp_all
  note t = nested_series_flattened[OF h, of np, unfolded items f arr mx mn]
  note c1 = t[THEN conjunct1]
  note c2 = t[THEN conjunct2, THEN conjunct1]
  from c1 have e: "compute_reward_metrics np [(''nested_scores'', ?vs)]
     = compute_reward_metrics np [(''nested_scores'', ?items)]"
    by simp
  from c2 obtain r where r: "compute_reward_metrics np [(''nested_scores'', ?vs)] = Inr r"
    "map_of r (''reward/'' @ ''nested_scores'' @ ''/mean'') = Some (MFloat (np_mean np ?a))"
    "map_of r (''reward/'' @ ''nested_scores'' @ ''/max'') = Some (MFloat (Fin 0.6))"
    "map_of r (''reward/'' @ ''nested_scores'' @ ''/min'') = Some (MFloat (Fin 0.1))"
    "map_of r (''reward/'' @ ''nested_scores'' @ ''/std'') = Some (MFloat (np_std np ?a))"
    "map_of r (''reward/'' @ ''nested_scores'' @ ''/count'') = None"
    by auto
  then have A: "\<exists>r. compute_reward_metrics np [(''nested_scores'', ?vs)] = Inr r
        \<and> map_of r ''reward/nested_scores/mean'' = Some (MFloat (np_mean np ?a))
        \<and> map_of r ''reward/nested_scores/max'' = Some (MFloat (Fin 0.6))
        \<and> map_of r ''reward/nested_scores/min'' = Some (MFloat (Fin 0.1))
        \<and> map_of r ''reward/nested_scores/std'' = Some (MFloat (np_std np ?a))
        \<and> map_of r ''reward/nested_scores/count'' = None"
    by (intro exI[of _ r]) simp
  from h(1,3) fin total e A
  show "distinct (map fst ([] @ (''nested_scores'', ?vs) # []))
   \<and> list_all numeric_seq ?vs
   \<and> list_all finite_num (concat (map seq_items ?vs))
   \<and> sum_list (map (\<lambda>v. length (seq_items v)) ?vs) = 6
   \<and> compute_reward_metrics np [(''nested_scores'', ?vs)]
     = compute_reward_metrics np [(''nested_scores'', ?items)]
   \<and> (\<exists>r. compute_reward_metrics np [(''nested_scores'', ?vs)] = Inr r
        \<and> map_of r ''reward/nested_scores/mean'' = Some (MFloat (np_mean np ?a))
        \<and> map_of r ''reward/nested_scores/max'' = Some (MFloat (Fin 0.6))
        \<and> map_of r ''reward/nested_scores/min'' = Some (MFloat (Fin 0.1))
        \<and> map_of r ''reward/nested_scores/std'' = Some (MFloat (np_std np ?a))
        \<and> map_of r ''reward/nested_scores/count'' = None)"
    by (intro conjI)
qed

text \<open>
  C5 as stated fails when an inner scalar is not finite, whatever the arithmetic: for
  \<^verbatim>\<open>{"x": [[0.5, inf]]}\<close> the statistics are those of the single value 0.5 (there is no
  std), although there are two inner scalars; for \<^verbatim>\<open>{"y": [[0.5, inf], [0.7]]}\<close> they are
  those of the two values 0.5 and 0.7, although there are three inner scalars.
\<close>

theorem nested_series_counterexample:
  "\<forall>np. compute_reward_metrics np [(''x'', [PList [PFloat (Fin 0.5), PFloat PosInf]])]
     = Inr [(''reward/x/mean'', MFloat (Fin 0.5)),
            (''reward/x/max'', MFloat (Fin 0.5)),
            (''reward/x/min'', MFloat (Fin 0.5))]
   \<and> compute_reward_metrics np
        [(''y'', [PList [PFloat (Fin 0.5), PFloat PosInf], PList [PFloat (Fin 0.7)]])]
     = Inr [(''reward/y/mean'', MFloat (np_mean np
              \<lparr>dtype = DFloat, shape = [2], elems = [Fin 0.5, Fin 0.7]\<rparr>)),
            (''reward/y/max'', MFloat (Fin 0.7)),
            (''reward/y/min'', MFloat (Fin 0.5)),
            (''reward/y/std'', MFloat (np_std np
              \<lparr>dtype = DFloat, shape = [2], elems = [Fin 0.5, Fin 0.7]\<rparr>))]"
proof (intro allI conjI)
  fix np
  show "compute_reward_metrics np [(''x'', [PList [PFloat (Fin 0.5), PFloat PosInf]])]
     = Inr [(''reward/x/mean'', MFloat (Fin 0.5)),
            (''reward/x/max'', MFloat (Fin 0.5)),
            (''reward/x/min'', MFloat (Fin 0.5))]"
    by (simp add: eval_defs)
  show "compute_reward_metrics np
        [(''y'', [PList [PFloat (Fin 0.5), PFloat PosInf], PList [PFloat (Fin 0.7)]])]
     = Inr [(''reward/y/mean'', MFloat (np_mean np
              \<lparr>dtype = DFloat, shape = [2], elems = [Fin 0.5, Fin 0.7]\<rparr>)),
            (''reward/y/max'', MFloat (Fin 0.7)),
            (''reward/y/min'', MFloat (Fin 0.5)),
            (''reward/y/std'', MFloat (np_std np
              \<lparr>dtype = DFloat, shape = [2], elems = [Fin 0.5, Fin 0.7]\<rparr>))]"
    by (simp add: model_defs Suc2)
qed

section \<open>Series of strings, None and booleans\<close>

text \<open>
  C6 (as amended). In a dict with distinct keys, let a signal have a series of strings,
  None or booleans. Then \<^verbatim>\<open>compute_reward_metrics\<close> returns a report, which is the report
  of the dict without that signal, and which has none of the keys of the signal.
  \<^verbatim>\<open>compute_reward_metrics_standalone\<close> behaves so for a series of strings of which at
  least one has a letter that no text of a float has (as \<^verbatim>\<open>"hello"\<close> and \<^verbatim>\<open>"world"\<close> have):
  the conversion of the series raises ValueError, which is caught with nothing written; the
  result of the call is the result for the dict without that signal; and every report
  returned has none of the keys of the signal.
\<close>

theorem non_numeric_series_skipped:
  assumes "distinct (map fst (d1 @ (name, vs) # d2))"
  shows "(list_all non_numeric vs \<longrightarrow>
           (\<exists>r. compute_reward_metrics np (d1 @ (name, vs) # d2) = Inr r
               \<and> compute_reward_metrics np (d1 @ d2) = Inr r
               \<and> (\<forall>st \<in> set stat_names. map_of r (''reward/'' @ name @ ''/'' @ st) = None)))
       \<and> (list_all is_str vs \<and> list_ex text_only vs \<longrightarrow>
           (\<forall>m. standalone_body np name (PList vs) m = Raised ValueError m)
         \<and> compute_reward_metrics_standalone np (series_dict (d1 @ (name, vs) # d2))
             = compute_reward_metrics_standalone np (series_dict (d1 @ d2))
         \<and> (\<forall>r. compute_reward_metrics_standalone np (series_dict (d1 @ (name, vs) # d2)) = Inr r
              \<longrightarrow> (\<forall>st \<in> set stat_names. map_of r (''reward/'' @ name @ ''/'' @ st) = None)))"
proof (intro conjI impI allI ballI)
  from assms have absent: "name \<notin> fst ` set (d1 @ d2)" by auto
  {
    assume nn: "list_all non_numeric vs"
    define r where "r = fold (\<lambda>(k, vs). after_signal np k vs) (d1 @ d2) []"
    have a: "compute_reward_metrics np (d1 @ d2) = Inr r" by (simp add: r_def compute_eq_fold)
    have "compute_reward_metrics np (d1 @ (name, vs) # d2) = compute_reward_metrics np (d1 @ d2)"
      using compute_append[of np d1 name vs d2] compute_append_skip[of np d1 d2]
      by (simp only: after_signal_non_numeric[OF nn])
    with a have b: "compute_reward_metrics np (d1 @ (name, vs) # d2) = Inr r"
      by simp
    have "map_of r (''reward/'' @ name @ ''/'' @ st) = None" if "st \<in> set stat_names" for st
      unfolding r_def
      by (rule absent_signal_keys[of "after_signal np", OF after_signal_map after_signal_dom absent
            stat_key_in_signal_keys[OF that]])
    with a b show "\<exists>r. compute_reward_metrics np (d1 @ (name, vs) # d2) = Inr r
               \<and> compute_reward_metrics np (d1 @ d2) = Inr r
               \<and> (\<forall>st \<in> set stat_names. map_of r (''reward/'' @ name @ ''/'' @ st) = None)"
      by blast
  }
  {
    fix m
    assume "list_all is_str vs \<and> list_ex text_only vs"
    then show "standalone_body np name (PList vs) m = Raised ValueError m"
      using standalone_body_text by blast
  }
  {
    assume "list_all is_str vs \<and> list_ex text_only vs"
    then show "compute_reward_metrics_standalone np (series_dict (d1 @ (name, vs) # d2))
             = compute_reward_metrics_standalone np (series_dict (d1 @ d2))"
      using standalone_skip_text by blast
  }
  {
    fix r st
    assume h: "list_all is_str vs \<and> list_ex text_only vs"
      and r: "compute_reward_metrics_standalone np (series_dict (d1 @ (name, vs) # d2)) = Inr r"
      and st: "st \<in> set stat_names"
    from h have "compute_reward_metrics_standalone np (series_dict (d1 @ (name, vs) # d2))
             = compute_reward_metrics_standalone np (series_dict (d1 @ d2))"
      using standalone_skip_text by blast
    with r have "compute_reward_metrics_standalone np (series_dict (d1 @ d2)) = Inr r" by simp
    then have r': "r = fold (\<lambda>(k, v). after_signal_standalone np k v) (series_dict (d1 @ d2)) []"
      by (rule standalone_Inr_fold)
    have absent': "name \<notin> fst ` set (series_dict (d1 @ d2))"
      using absent series_dict_fst[of "d1 @ d2"] by (metis set_map)
    show "map_of r (''reward/'' @ name @ ''/'' @ st) = None"
      unfolding r'
      by (rule absent_signal_keys[of "after_signal_standalone np", OF after_signal_standalone_map
            after_signal_standalone_dom absent' stat_key_in_signal_keys[OF st]])
  }
qed

text \<open>The signal \<^verbatim>\<open>"string_data": ["hello", "world"]\<close> of the fourth test, before the signal
  \<^verbatim>\<open>"single_value": [0.42]\<close>: both reports are those of the second signal alone.\<close>

theorem non_numeric_series_skipped_witness:
  "\<forall>np. distinct (map fst ([] @ (''string_data'', [PStr ''hello'', PStr ''world''])
       # [(''single_value'', [PFloat (Fin 0.42)])]))
   \<and> list_all non_numeric [PStr ''hello'', PStr ''world'']
   \<and> list_all is_str [PStr ''hello'', PStr ''world'']
   \<and> list_ex text_only [PStr ''hello'', PStr ''world'']
   \<and> compute_reward_metrics np
        [(''string_data'', [PStr ''hello'', PStr ''world'']), (''single_value'', [PFloat (Fin 0.42)])]
       = Inr [(''reward/single_value/mean'', MFloat (Fin 0.42)),
              (''reward/single_value/max'', MFloat (Fin 0.42)),
              (''reward/single_value/min'', MFloat (Fin 0.42))]
   \<and> standalone_body np ''string_data'' (PList [PStr ''hello'', PStr ''world'']) []
       = Raised ValueError []
   \<and> compute_reward_metrics_standalone np (series_dict
        [(''string_data'', [PStr ''hello'', PStr ''world'']), (''single_value'', [PFloat (Fin 0.42)])])
       = Inr [(''reward/single_value/mean'', MFloat (Fin 0.42)),
              (''reward/single_value/std'', MFloat (Fin 0)),
              (''reward/single_value/min'', MFloat (Fin 0.42)),
              (''reward/single_value/max'', MFloat (Fin 0.42)),
              (''reward/single_value/count'', MInt 1)]"
proof
  fix np
  let ?vs = "[PStr ''hello'', PStr ''world'']"
  let ?d2 = "[(''single_value'', [PFloat (Fin 0.42)])]"
  have h: "distinct (map fst ([] @ (''string_data'', ?vs) # ?d2))" by simp
  have n: "list_all non_numeric ?vs" "list_all is_str ?vs" by simp_all
  have t: "list_ex text_only ?vs" by (simp add: other_letter_def)
  note th = non_numeric_series_skipped[OF h, of np]
  from th n(1) obtain r where
    a: "compute_reward_metrics np ([] @ (''string_data'', ?vs) # ?d2) = Inr r"
      "compute_reward_metrics np ([] @ ?d2) = Inr r"
    by blast
  have "compute_reward_metrics np ?d2
       = Inr [(''reward/single_value/mean'', MFloat (Fin 0.42)),
              (''reward/single_value/max'', MFloat (Fin 0.42)),
              (''reward/single_value/min'', MFloat (Fin 0.42))]"
    by (simp add: eval_defs)
  with a have A: "compute_reward_metrics np [(''string_data'', ?vs), (''single_value'', [PFloat (Fin 0.42)])]
       = Inr [(''reward/single_value/mean'', MFloat (Fin 0.42)),
              (''reward/single_value/max'', MFloat (Fin 0.42)),
              (''reward/single_value/min'', MFloat (Fin 0.42))]"
    by simp
  from th n(2) t have raised: "standalone_body np ''string_data'' (PList ?vs) [] = Raised ValueError []"
    and b: "compute_reward_metrics_standalone np (series_dict ([] @ (''string_data'', ?vs) # ?d2))
             = compute_reward_metrics_standalone np (series_dict ([] @ ?d2))"
    by blast+
  have "compute_reward_metrics_standalone np (series_dict ?d2)
       = Inr [(''reward/single_value/mean'', MFloat (Fin 0.42)),
              (''reward/single_value/std'', MFloat (Fin 0)),
              (''reward/single_value/min'', MFloat (Fin 0.42)),
              (''reward/single_value/max'', MFloat (Fin 0.42)),
              (''reward/single_value/count'', MInt 1)]"
    by (simp add: eval_defs)
  with b have B: "compute_reward_metrics_standalone np (series_dict
        [(''string_data'', ?vs), (''single_value'', [PFloat (Fin 0.42)])])
       = Inr [(''reward/single_value/mean'', MFloat (Fin 0.42)),
              (''reward/single_value/std'', MFloat (Fin 0)),
              (''reward/single_value/min'', MFloat (Fin 0.42)),
              (''reward/single_value/max'', MFloat (Fin 0.42)),
              (''reward/single_value/count'', MInt 1)]"
    by simp
  from h n t A raised B
  show "distinct (map fst ([] @ (''string_data'', ?vs) # ?d2))
   \<and> list_all non_numeric ?vs \<and> list_all is_str ?vs \<and> list_ex text_only ?vs
   \<and> compute_reward_metrics np [(''string_data'', ?vs), (''single_value'', [PFloat (Fin 0.42)])]
       = Inr [(''reward/single_value/mean'', MFloat (Fin 0.42)),
              (''reward/single_value/max'', MFloat (Fin 0.42)),
              (''reward/single_value/min'', MFloat (Fin 0.42))]
   \<and> standalone_body np ''string_data'' (PList ?vs) [] = Raised ValueError []
   \<and> compute_reward_metrics_standalone np (series_dict
        [(''string_data'', ?vs), (''single_value'', [PFloat (Fin 0.42)])])
       = Inr [(''reward/single_value/mean'', MFloat (Fin 0.42)),
              (''reward/single_value/std'', MFloat (Fin 0)),
              (''reward/single_value/min'', MFloat (Fin 0.42)),
              (''reward/single_value/max'', MFloat (Fin 0.42)),
              (''reward/single_value/count'', MInt 1)]"
    by (intro conjI)
qed

text \<open>
  C6 as stated fails for \<^verbatim>\<open>compute_reward_metrics_standalone\<close>, whatever the arithmetic: it
  writes metrics for the series of booleans \<^verbatim>\<open>[True, False]\<close>, which it converts to 1.0 and
  0.0, and for the series \<^verbatim>\<open>[None]\<close>, which it converts to NaN.
\<close>

theorem non_numeric_counterexample:
  "\<forall>np. compute_reward_metrics_standalone np (series_dict [(''flags'', [PBool True, PBool False])])
     = Inr [(''reward/flags/mean'', MFloat (np_mean np
              \<lparr>dtype = DFloat, shape = [2], elems = [Fin 1, Fin 0]\<rparr>)),
            (''reward/flags/std'', MFloat (np_std np
              \<lparr>dtype = DFloat, shape = [2], elems = [Fin 1, Fin 0]\<rparr>)),
            (''reward/flags/min'', MFloat (Fin 0)),
            (''reward/flags/max'', MFloat (Fin 1)),
            (''reward/flags/count'', MInt 2)]
   \<and> compute_reward_metrics_standalone np (series_dict [(''missing'', [PNone])])
     = Inr [(''reward/missing/mean'', MFloat NaN),
            (''reward/missing/std'', MFloat NaN),
            (''reward/missing/min'', MFloat NaN),
            (''reward/missing/max'', MFloat NaN),
            (''reward/missing/count'', MInt 1)]"
proof (intro allI conjI)
  fix np
  show "compute_reward_metrics_standalone np (series_dict [(''flags'', [PBool True, PBool False])])
     = Inr [(''reward/flags/mean'', MFloat (np_mean np
              \<lparr>dtype = DFloat, shape = [2], elems = [Fin 1, Fin 0]\<rparr>)),
            (''reward/flags/std'', MFloat (np_std np
              \<lparr>dtype = DFloat, shape = [2], elems = [Fin 1, Fin 0]\<rparr>)),
            (''reward/flags/min'', MFloat (Fin 0)),
            (''reward/flags/max'', MFloat (Fin 1)),
            (''reward/flags/count'', MInt 2)]"
    by (simp add: model_defs Suc2)
  show "compute_reward_metrics_standalone np (series_dict [(''missing'', [PNone])])
     = Inr [(''reward/missing/mean'', MFloat NaN),
            (''reward/missing/std'', MFloat NaN),
            (''reward/missing/min'', MFloat NaN),
            (''reward/missing/max'', MFloat NaN),
            (''reward/missing/count'', MInt 1)]"
    by (simp add: eval_defs)
qed

section \<open>The length_score scenario\<close>

text \<open>
  C7 (as amended). For the input \<^verbatim>\<open>{"length_score": [0.8, 0.9, 0.7, 0.85]}\<close>,
  \<^verbatim>\<open>compute_reward_metrics\<close> returns exactly four metrics: the mean and the standard
  deviation that numpy computes of the four floats, max 0.9 and min 0.7, and no count;
  \<^verbatim>\<open>compute_reward_metrics_standalone\<close> returns the same four values and count 4. When
  numpy's mean and standard deviation are accurate to \<open>10\<^sup>-\<^sup>9\<close>, the mean is
  approximately 0.8125 (between 0.8124 and 0.8126) and the standard deviation is
  approximately 0.0740 (between 0.0739 and 0.0740).
\<close>

theorem length_score_report:
  "compute_reward_metrics np
     [(''length_score'', [PFloat (Fin 0.8), PFloat (Fin 0.9), PFloat (Fin 0.7), PFloat (Fin 0.85)])]
   = Inr [(''reward/length_score/mean'', MFloat (np_mean np
            \<lparr>dtype = DFloat, shape = [4], elems = [Fin 0.8, Fin 0.9, Fin 0.7, Fin 0.85]\<rparr>)),
          (''reward/length_score/max'', MFloat (Fin 0.9)),
          (''reward/length_score/min'', MFloat (Fin 0.7)),
          (''reward/length_score/std'', MFloat (np_std np
            \<lparr>dtype = DFloat, shape = [4], elems = [Fin 0.8, Fin 0.9, Fin 0.7, Fin 0.85]\<rparr>))]
   \<and> compute_reward_metrics_standalone np (series_dict
     [(''length_score'', [PFloat (Fin 0.8), PFloat (Fin 0.9), PFloat (Fin 0.7), PFloat (Fin 0.85)])])
   = Inr [(''reward/length_score/mean'', MFloat (np_mean np
            \<lparr>dtype = DFloat, shape = [4], elems = [Fin 0.8, Fin 0.9, Fin 0.7, Fin 0.85]\<rparr>)),
          (''reward/length_score/std'', MFloat (np_std np
            \<lparr>dtype = DFloat, shape = [4], elems = [Fin 0.8, Fin 0.9, Fin 0.7, Fin 0.85]\<rparr>)),
          (''reward/length_score/min'', MFloat (Fin 0.7)),
          (''reward/length_score/max'', MFloat (Fin 0.9)),
          (''reward/length_score/count'', MInt 4)]
   \<and> (accurate np \<longrightarrow>
        (\<exists>m s. np_mean np \<lparr>dtype = DFloat, shape = [4],
                    elems = [Fin 0.8, Fin 0.9, Fin 0.7, Fin 0.85]\<rparr> = Fin m
             \<and> np_std np \<lparr>dtype = DFloat, shape = [4],
                    elems = [Fin 0.8, Fin 0.9, Fin 0.7, Fin 0.85]\<rparr> = Fin s
             \<and> 0.8124 < m \<and> m < 0.8126 \<and> 0.0739 < s \<and> s < 0.074))"
proof (intro conjI impI)
  show "compute_reward_metrics np
     [(''length_score'', [PFloat (Fin 0.8), PFloat (Fin 0.9), PFloat (Fin 0.7), PFloat (Fin 0.85)])]
   = Inr [(''reward/length_score/mean'', MFloat (np_mean np
            \<lparr>dtype = DFloat, shape = [4], elems = [Fin 0.8, Fin 0.9, Fin 0.7, Fin 0.85]\<rparr>)),
          (''reward/length_score/max'', MFloat (Fin 0.9)),
          (''reward/length_score/min'', MFloat (Fin 0.7)),
          (''reward/length_score/std'', MFloat (np_std np
            \<lparr>dtype = DFloat, shape = [4], elems = [Fin 0.8, Fin 0.9, Fin 0.7, Fin 0.85]\<rparr>))]"
    by (simp add: model_defs Suc4)
  show "compute_reward_metrics_standalone np (series_dict
     [(''length_score'', [PFloat (Fin 0.8), PFloat (Fin 0.9), PFloat (Fin 0.7), PFloat (Fin 0.85)])])
   = Inr [(''reward/length_score/mean'', MFloat (np_mean np
            \<lparr>dtype = DFloat, shape = [4], elems = [Fin 0.8, Fin 0.9, Fin 0.7, Fin 0.85]\<rparr>)),
          (''reward/length_score/std'', MFloat (np_std np
            \<lparr>dtype = DFloat, shape = [4], elems = [Fin 0.8, Fin 0.9, Fin 0.7, Fin 0.85]\<rparr>)),
          (''reward/length_score/min'', MFloat (Fin 0.7)),
          (''reward/length_score/max'', MFloat (Fin 0.9)),
          (''reward/length_score/count'', MInt 4)]"
    by (simp add: model_defs Suc4)
next
  assume "accurate np"
  then show "\<exists>m s. np_mean np \<lparr>dtype = DFloat, shape = [4],
                    elems = [Fin 0.8, Fin 0.9, Fin 0.7, Fin 0.85]\<rparr> = Fin m
             \<and> np_std np \<lparr>dtype = DFloat, shape = [4],
                    elems = [Fin 0.8, Fin 0.9, Fin 0.7, Fin 0.85]\<rparr> = Fin s
             \<and> 0.8124 < m \<and> m < 0.8126 \<and> 0.0739 < s \<and> s < 0.074"
    by (rule length_score_accurate)
qed

text \<open>The scenario with the exact mean and standard deviation, which are accurate.\<close>

theorem length_score_report_witness:
  "accurate exact_arith
   \<and> (\<exists>m s. compute_reward_metrics exact_arith
        [(''length_score'', [PFloat (Fin 0.8), PFloat (Fin 0.9), PFloat (Fin 0.7), PFloat (Fin 0.85)])]
      = Inr [(''reward/length_score/mean'', MFloat (Fin m)),
             (''reward/length_score/max'', MFloat (Fin 0.9)),
             (''reward/length_score/min'', MFloat (Fin 0.7)),
             (''reward/length_score/std'', MFloat (Fin s))]
      \<and> 0.8124 < m \<and> m < 0.8126 \<and> 0.0739 < s \<and> s < 0.074)"
proof -
  note t = length_score_report[of exact_arith]
  from t accurate_exact_arith obtain m s where
    ms: "np_mean exact_arith \<lparr>dtype = DFloat, shape = [4],
                    elems = [Fin 0.8, Fin 0.9, Fin 0.7, Fin 0.85]\<rparr> = Fin m"
      "np_std exact_arith \<lparr>dtype = DFloat, shape = [4],
                    elems = [Fin 0.8, Fin 0.9, Fin 0.7, Fin 0.85]\<rparr> = Fin s"
      "0.8124 < m" "m < 0.8126" "0.0739 < s" "s < 0.074"
    by blast
  from t have "compute_reward_metrics exact_arith
        [(''length_score'', [PFloat (Fin 0.8), PFloat (Fin 0.9), PFloat (Fin 0.7), PFloat (Fin 0.85)])]
      = Inr [(''reward/length_score/mean'', MFloat (Fin m)),
             (''reward/length_score/max'', MFloat (Fin 0.9)),
             (''reward/length_score/min'', MFloat (Fin 0.7)),
             (''reward/length_score/std'', MFloat (Fin s))]"
    unfolding ms(1,2) by (rule conjunct1)
  with ms(3-6) accurate_exact_arith show ?thesis by blast
qed

text \<open>
  C7 as stated fails: whatever the arithmetic, the report of \<^verbatim>\<open>compute_reward_metrics\<close> has
  no count; and the exact standard deviation of the four values, which
  \<^verbatim>\<open>compute_reward_metrics_standalone\<close> reports up to rounding, is below 0.074, not near
  0.0808.
\<close>

theorem length_score_counterexample:
  "\<forall>np. map_of (projr (compute_reward_metrics np
     [(''length_score'', [PFloat (Fin 0.8), PFloat (Fin 0.9), PFloat (Fin 0.7), PFloat (Fin 0.85)])]))
     ''reward/length_score/count'' = None
   \<and> (\<exists>s. map_of (projr (compute_reward_metrics_standalone exact_arith (series_dict
     [(''length_score'', [PFloat (Fin 0.8), PFloat (Fin 0.9), PFloat (Fin 0.7), PFloat (Fin 0.85)])])))
     ''reward/length_score/std'' = Some (MFloat (Fin s)) \<and> s < 0.0808 - 0.0068)"
proof (intro allI conjI)
  fix np
  show "map_of (projr (compute_reward_metrics np
     [(''length_score'', [PFloat (Fin 0.8), PFloat (Fin 0.9), PFloat (Fin 0.7), PFloat (Fin 0.85)])]))
     ''reward/length_score/count'' = None"
    by (simp add: model_defs Suc4)
  from length_score_accurate[OF accurate_exact_arith] obtain m s where
    s: "np_std exact_arith \<lparr>dtype = DFloat, shape = [4],
                    elems = [Fin 0.8, Fin 0.9, Fin 0.7, Fin 0.85]\<rparr> = Fin s" "s < 0.074"
    by blast
  have "map_of (projr (compute_reward_metrics_standalone exact_arith (series_dict
     [(''length_score'', [PFloat (Fin 0.8), PFloat (Fin 0.9), PFloat (Fin 0.7), PFloat (Fin 0.85)])])))
     ''reward/length_score/std'' = Some (MFloat (np_std exact_arith \<lparr>dtype = DFloat, shape = [4],
                    elems = [Fin 0.8, Fin 0.9, Fin 0.7, Fin 0.85]\<rparr>))"
    by (simp add: model_defs Suc4)
  with s show "\<exists>s. map_of (projr (compute_reward_metrics_standalone exact_arith (series_dict
     [(''length_score'', [PFloat (Fin 0.8), PFloat (Fin 0.9), PFloat (Fin 0.7), PFloat (Fin 0.85)])])))
     ''reward/length_score/std'' = Some (MFloat (Fin s)) \<and> s < 0.0808 - 0.0068"
    by (intro exI[of _ s]) simp
qed

section \<open>The names of the metrics\<close>

text \<open>
  C8. Every key of the report that \<^verbatim>\<open>compute_reward_metrics\<close> returns, and every key of
  the report that \<^verbatim>\<open>compute_reward_metrics_standalone\<close> returns, is
  \<^verbatim>\<open>reward/<name>/<stat>\<close> for a key \<^verbatim>\<open><name>\<close> of the input dict and a \<^verbatim>\<open><stat>\<close> among mean,
  max, min, std and count.
\<close>

theorem report_keys:
  "(compute_reward_metrics np d = Inr r \<longrightarrow>
      (\<forall>key \<in> fst ` set r. \<exists>name \<in> fst ` set d. \<exists>st \<in> set stat_names.
          key = ''reward/'' @ name @ ''/'' @ st))
   \<and> (compute_reward_metrics_standalone np d' = Inr r' \<longrightarrow>
      (\<forall>key \<in> fst ` set r'. \<exists>name \<in> fst ` set d'. \<exists>st \<in> set stat_names.
          key = ''reward/'' @ name @ ''/'' @ st))"
proof (intro conjI impI ballI)
  fix key
  assume "compute_reward_metrics np d = Inr r" and "key \<in> fst ` set r"
  then have "key \<in> fst ` set (fold (\<lambda>(k, vs). after_signal np k vs) d [])"
    by (simp add: compute_eq_fold)
  from fold_keys[of "after_signal np", OF after_signal_map after_signal_dom this]
  obtain name where "name \<in> fst ` set d" "key \<in> signal_keys name" by blast
  then show "\<exists>name \<in> fst ` set d. \<exists>st \<in> set stat_names. key = ''reward/'' @ name @ ''/'' @ st"
    using signal_keys_form by blast
next
  fix key
  assume "compute_reward_metrics_standalone np d' = Inr r'" and "key \<in> fst ` set r'"
  then have "key \<in> fst ` set (fold (\<lambda>(k, v). after_signal_standalone np k v) d' [])"
    using standalone_Inr_fold by blast
  from fold_keys[of "after_signal_standalone np", OF after_signal_standalone_map
      after_signal_standalone_dom this]
  obtain name where "name \<in> fst ` set d'" "key \<in> signal_keys name" by blast
  then show "\<exists>name \<in> fst ` set d'. \<exists>st \<in> set stat_names. key = ''reward/'' @ name @ ''/'' @ st"
    using signal_keys_form by blast
qed

text \<open>The input \<^verbatim>\<open>{"single_value": [0.42]}\<close>: the keys of both reports, and the name and
  the suffix that the theorem gives for \<^verbatim>\<open>reward/single_value/max\<close>.\<close>

theorem report_keys_witness:
  "\<forall>np. compute_reward_metrics np [(''single_value'', [PFloat (Fin 0.42)])]
     = Inr [(''reward/single_value/mean'', MFloat (Fin 0.42)),
            (''reward/single_value/max'', MFloat (Fin 0.42)),
            (''reward/single_value/min'', MFloat (Fin 0.42))]
   \<and> compute_reward_metrics_standalone np [(''single_value'', PList [PFloat (Fin 0.42)])]
     = Inr [(''reward/single_value/mean'', MFloat (Fin 0.42)),
            (''reward/single_value/std'', MFloat (Fin 0)),
            (''reward/single_value/min'', MFloat (Fin 0.42)),
            (''reward/single_value/max'', MFloat (Fin 0.42)),
            (''reward/single_value/count'', MInt 1)]
   \<and> (\<exists>name \<in> {''single_value''}. \<exists>st \<in> set stat_names.
          ''reward/single_value/max'' = ''reward/'' @ name @ ''/'' @ st)"
proof
  fix np
  have a: "compute_reward_metrics np [(''single_value'', [PFloat (Fin 0.42)])]
     = Inr [(''reward/single_value/mean'', MFloat (Fin 0.42)),
            (''reward/single_value/max'', MFloat (Fin 0.42)),
            (''reward/single_value/min'', MFloat (Fin 0.42))]"
    by (simp add: eval_defs)
  have b: "compute_reward_metrics_standalone np [(''single_value'', PList [PFloat (Fin 0.42)])]
     = Inr [(''reward/single_value/mean'', MFloat (Fin 0.42)),
            (''reward/single_value/std'', MFloat (Fin 0)),
            (''reward/single_value/min'', MFloat (Fin 0.42)),
            (''reward/single_value/max'', MFloat (Fin 0.42)),
            (''reward/single_value/count'', MInt 1)]"
    by (simp add: eval_defs)
  from report_keys[of np "[(''single_value'', [PFloat (Fin 0.42)])]" _
      "[(''single_value'', PList [PFloat (Fin 0.42)])]" _] a b
  have "\<forall>key \<in> fst ` set [(''reward/single_value/mean'', MFloat (Fin 0.42)),
            (''reward/single_value/max'', MFloat (Fin 0.42)),
            (''reward/single_value/min'', MFloat (Fin 0.42))].
        \<exists>name \<in> fst ` set [(''single_value'', [PFloat (Fin 0.42)])]. \<exists>st \<in> set stat_names.
          key = ''reward/'' @ name @ ''/'' @ st"
    by blast
  then have "\<exists>name \<in> {''single_value''}. \<exists>st \<in> set stat_names.
          ''reward/single_value/max'' = ''reward/'' @ name @ ''/'' @ st"
    by simp
  with a b show "compute_reward_metrics np [(''single_value'', [PFloat (Fin 0.42)])]
     = Inr [(''reward/single_value/mean'', MFloat (Fin 0.42)),
            (''reward/single_value/max'', MFloat (Fin 0.42)),
            (''reward/single_value/min'', MFloat (Fin 0.42))]
   \<and> compute_reward_metrics_standalone np [(''single_value'', PList [PFloat (Fin 0.42)])]
     = Inr [(''reward/single_value/mean'', MFloat (Fin 0.42)),
            (''reward/single_value/std'', MFloat (Fin 0)),
            (''reward/single_value/min'', MFloat (Fin 0.42)),
            (''reward/single_value/max'', MFloat (Fin 0.42)),
            (''reward/single_value/count'', MInt 1)]
   \<and> (\<exists>name \<in> {''single_value''}. \<exists>st \<in> set stat_names.
          ''reward/single_value/max'' = ''reward/'' @ name @ ''/'' @ st)" by blast
qed

section \<open>An empty series\<close>

text \<open>
  C9. When a signal name of the input dict (whose keys are distinct) has an empty series,
  \<^verbatim>\<open>compute_reward_metrics\<close> returns a report, and the report has none of the keys
  \<^verbatim>\<open>reward/<name>/<stat>\<close> of that signal. In \<^verbatim>\<open>compute_reward_metrics_standalone\<close> the turn
  of the loop for the empty series does not raise and writes nothing, and every report
  that the function returns has none of the keys of that signal.
\<close>

theorem empty_series_no_metrics:
  assumes "distinct (map fst d)" and "(name, []) \<in> set d"
  shows "(\<exists>r. compute_reward_metrics np d = Inr r
           \<and> (\<forall>st \<in> set stat_names. map_of r (''reward/'' @ name @ ''/'' @ st) = None))
         \<and> (\<forall>m. standalone_body np name (PList []) m = Done m)
         \<and> (\<forall>r'. compute_reward_metrics_standalone np (series_dict d) = Inr r' \<longrightarrow>
              (\<forall>st \<in> set stat_names. map_of r' (''reward/'' @ name @ ''/'' @ st) = None))"
proof (intro conjI allI impI ballI)
  obtain r where r: "compute_reward_metrics np d = Inr r" by (simp add: compute_eq_fold)
  have "map_of r (''reward/'' @ name @ ''/'' @ st) = None" if "st \<in> set stat_names" for st
    using report_lookup[OF assms stat_key_in_signal_keys[OF that] r]
    by (simp add: after_signal_def)
  with r show "\<exists>r. compute_reward_metrics np d = Inr r
           \<and> (\<forall>st \<in> set stat_names. map_of r (''reward/'' @ name @ ''/'' @ st) = None)"
    by blast
next
  fix m
  show "standalone_body np name (PList []) m = Done m"
    by (simp add: standalone_body_def np_array_float_def seq_shape_def np_len_def)
next
  fix r' st
  assume r': "compute_reward_metrics_standalone np (series_dict d) = Inr r'"
    and st: "st \<in> set stat_names"
  have d': "distinct (map fst (series_dict d))" using assms(1) by (simp add: series_dict_fst)
  show "map_of r' (''reward/'' @ name @ ''/'' @ st) = None"
    using standalone_lookup[OF d' series_dict_mem[OF assms(2)] stat_key_in_signal_keys[OF st] r']
    by (simp add: after_signal_standalone_empty)
qed

text \<open>The input \<^verbatim>\<open>{"empty_list": [], "single_value": [0.42]}\<close>.\<close>

theorem empty_series_no_metrics_witness:
  "\<forall>np. distinct (map fst [(''empty_list'', []), (''single_value'', [PFloat (Fin 0.42)])])
   \<and> (''empty_list'', []) \<in> set [(''empty_list'', []), (''single_value'', [PFloat (Fin 0.42)])]
   \<and> (\<exists>r. compute_reward_metrics np [(''empty_list'', []), (''single_value'', [PFloat (Fin 0.42)])] = Inr r
        \<and> map_of r ''reward/empty_list/mean'' = None
        \<and> map_of r ''reward/empty_list/max'' = None
        \<and> map_of r ''reward/empty_list/min'' = None
        \<and> map_of r ''reward/empty_list/std'' = None
        \<and> map_of r ''reward/empty_list/count'' = None
        \<and> map_of r ''reward/single_value/mean'' = Some (MFloat (Fin 0.42)))
   \<and> (\<exists>r'. compute_reward_metrics_standalone np
              (series_dict [(''empty_list'', []), (''single_value'', [PFloat (Fin 0.42)])]) = Inr r'
        \<and> map_of r' ''reward/empty_list/mean'' = None
        \<and> map_of r' ''reward/empty_list/count'' = None
        \<and> map_of r' ''reward/single_value/count'' = Some (MInt 1))"
proof
  fix np
  let ?d = "[(''empty_list'', []), (''single_value'', [PFloat (Fin 0.42)])]"
  have d: "distinct (map fst ?d)" and e: "(''empty_list'', []) \<in> set ?d" by simp_all
  note t = empty_series_no_metrics[OF d e, of np]
  from t obtain r where
    r: "compute_reward_metrics np ?d = Inr r"
    and n: "\<forall>st \<in> set stat_names. map_of r (''reward/'' @ ''empty_list'' @ ''/'' @ st) = None"
    by blast
  have "compute_reward_metrics np ?d = Inr [(''reward/single_value/mean'', MFloat (Fin 0.42)),
            (''reward/single_value/max'', MFloat (Fin 0.42)),
            (''reward/single_value/min'', MFloat (Fin 0.42))]"
    by (simp add: eval_defs)
  with r have s: "map_of r ''reward/single_value/mean'' = Some (MFloat (Fin 0.42))" by simp
  have b: "compute_reward_metrics_standalone np (series_dict ?d)
     = Inr [(''reward/single_value/mean'', MFloat (Fin 0.42)),
            (''reward/single_value/std'', MFloat (Fin 0)),
            (''reward/single_value/min'', MFloat (Fin 0.42)),
            (''reward/single_value/max'', MFloat (Fin 0.42)),
            (''reward/single_value/count'', MInt 1)]"
    by (simp add: eval_defs)
  from t b have n': "\<forall>st \<in> set stat_names.
      map_of [(''reward/single_value/mean'', MFloat (Fin 0.42)),
            (''reward/single_value/std'', MFloat (Fin 0)),
            (''reward/single_value/min'', MFloat (Fin 0.42)),
            (''reward/single_value/max'', MFloat (Fin 0.42)),
            (''reward/single_value/count'', MInt 1)] (''reward/'' @ ''empty_list'' @ ''/'' @ st) = None"
    by blast
  have A: "\<exists>r. compute_reward_metrics np ?d = Inr r
        \<and> map_of r ''reward/empty_list/mean'' = None
        \<and> map_of r ''reward/empty_list/max'' = None
        \<and> map_of r ''reward/empty_list/min'' = None
        \<and> map_of r ''reward/empty_list/std'' = None
        \<and> map_of r ''reward/empty_list/count'' = None
        \<and> map_of r ''reward/single_value/mean'' = Some (MFloat (Fin 0.42))"
    using r n s by (intro exI[of _ r]) (simp add: stat_names_def)
  have B: "\<exists>r'. compute_reward_metrics_standalone np (series_dict ?d) = Inr r'
        \<and> map_of r' ''reward/empty_list/mean'' = None
        \<and> map_of r' ''reward/empty_list/count'' = None
        \<and> map_of r' ''reward/single_value/count'' = Some (MInt 1)"
    using b n' by (simp add: stat_names_def)
  from d e A B show "distinct (map fst ?d) \<and> (''empty_list'', []) \<in> set ?d
   \<and> (\<exists>r. compute_reward_metrics np ?d = Inr r
        \<and> map_of r ''reward/empty_list/mean'' = None
        \<and> map_of r ''reward/empty_list/max'' = None
        \<and> map_of r ''reward/empty_list/min'' = None
        \<and> map_of r ''reward/empty_list/std'' = None
        \<and> map_of r ''reward/empty_list/count'' = None
        \<and> map_of r ''reward/single_value/mean'' = Some (MFloat (Fin 0.42)))
   \<and> (\<exists>r'. compute_reward_metrics_standalone np (series_dict ?d) = Inr r'
        \<and> map_of r' ''reward/empty_list/mean'' = None
        \<and> map_of r' ''reward/empty_list/count'' = None
        \<and> map_of r' ''reward/single_value/count'' = Some (MInt 1))"
    by (intro conjI)
qed

section \<open>The two functions side by side\<close>

text \<open>
  C10 (as amended). The two functions do not return equal reports in general. On a dict
  with distinct keys all of whose series are flat lists of finite floats, both return a
  report, and every metric in the report of \<^verbatim>\<open>compute_reward_metrics\<close> is in the report of
  \<^verbatim>\<open>compute_reward_metrics_standalone\<close> with the same value. The second report has more:
  for every non-empty series it has a count, the length of the series, and the first has
  none; for every series of one element it has a std, 0.0, and the first has none.
\<close>

theorem reports_agree_on_finite_series:
  assumes "distinct (map fst d)" and "list_all (\<lambda>(k, vs). list_all finite_float vs) d"
  shows "\<exists>ra rb. compute_reward_metrics np d = Inr ra
           \<and> compute_reward_metrics_standalone np (series_dict d) = Inr rb
           \<and> map_of ra \<subseteq>\<^sub>m map_of rb
           \<and> (\<forall>(name, vs) \<in> set d. vs \<noteq> [] \<longrightarrow>
                 map_of ra (''reward/'' @ name @ ''/count'') = None
               \<and> map_of rb (''reward/'' @ name @ ''/count'') = Some (MInt (int (length vs))))
           \<and> (\<forall>(name, vs) \<in> set d. length vs = 1 \<longrightarrow>
                 map_of ra (''reward/'' @ name @ ''/std'') = None
               \<and> map_of rb (''reward/'' @ name @ ''/std'') = Some (MFloat (Fin 0)))"
proof -
  obtain ra where ra: "compute_reward_metrics np d = Inr ra" by (simp add: compute_eq_fold)
  obtain rb where rb: "compute_reward_metrics_standalone np (series_dict d) = Inr rb"
    using standalone_returns[OF finite_floats_numeric[OF assms(2)]] by blast
  have d': "distinct (map fst (series_dict d))" using assms(1) by (simp add: series_dict_fst)
  have "map_of ra x = map_of rb x" if "x \<in> dom (map_of ra)" for x
  proof -
    from that obtain y where y: "map_of ra x = Some y" by blast
    then have "x \<in> fst ` set ra" by (metis map_of_eq_None_iff option.distinct(1))
    with ra have "x \<in> fst ` set (fold (\<lambda>(k, vs). after_signal np k vs) d [])"
      by (simp add: compute_eq_fold)
    from fold_keys[of "after_signal np", OF after_signal_map after_signal_dom this]
    obtain name where "name \<in> fst ` set d" and k: "x \<in> signal_keys name" by blast
    then obtain vs where mem: "(name, vs) \<in> set d" by auto
    with assms(2) have fin: "list_all finite_float vs" unfolding list_all_iff by blast
    have "map_of (after_signal np name vs []) x = Some y"
      using report_lookup[OF assms(1) mem k ra] y by simp
    from single_signal_le[OF fin k this]
    have "map_of rb x = Some y"
      using standalone_lookup[OF d' series_dict_mem[OF mem] k rb] by simp
    with y show ?thesis by simp
  qed
  then have le: "map_of ra \<subseteq>\<^sub>m map_of rb" unfolding map_le_def by blast
  have cnt: "map_of ra (''reward/'' @ name @ ''/count'') = None
             \<and> map_of rb (''reward/'' @ name @ ''/count'') = Some (MInt (int (length vs)))"
    if mem: "(name, vs) \<in> set d" and ne: "vs \<noteq> []" for name vs
  proof -
    from assms(2) mem have fin: "list_all finite_float vs" unfolding list_all_iff by blast
    note num = finite_floats(1)[OF fin]
    show ?thesis
      using report_lookup[OF assms(1) mem stat_keys_mem(5) ra]
        standalone_lookup[OF d' series_dict_mem[OF mem] stat_keys_mem(5) rb]
        after_signal_finite_lookup(5)[OF num ne, of np name]
        after_signal_standalone_finite_lookup(5)[OF num ne, of np name]
      by simp
  qed
  have sd: "map_of ra (''reward/'' @ name @ ''/std'') = None
             \<and> map_of rb (''reward/'' @ name @ ''/std'') = Some (MFloat (Fin 0))"
    if mem: "(name, vs) \<in> set d" and one: "length vs = 1" for name vs
  proof -
    from assms(2) mem have fin: "list_all finite_float vs" unfolding list_all_iff by blast
    note num = finite_floats(1)[OF fin]
    from one obtain v where v: "vs = [v]" by (cases vs) auto
    then have ne: "vs \<noteq> []" by simp
    have "np_std np (float_array vs) = Fin 0"
      unfolding v by (simp add: float_array_def singleton_stats)
    then show ?thesis
      using report_lookup[OF assms(1) mem stat_keys_mem(4) ra]
        standalone_lookup[OF d' series_dict_mem[OF mem] stat_keys_mem(4) rb]
        after_signal_finite_lookup(4)[OF num ne, of np name]
        after_signal_standalone_finite_lookup(4)[OF num ne, of np name] one
      by simp
  qed
  from ra rb le cnt sd show ?thesis by blast
qed

text \<open>The test inputs \<^verbatim>\<open>"fluency": [0.8, 0.9, 0.7, 0.85]\<close> and \<^verbatim>\<open>"single_value": [0.42]\<close>
  in one dict.\<close>

theorem reports_agree_on_finite_series_witness:
  "\<forall>np. distinct (map fst
     [(''fluency'', [PFloat (Fin 0.8), PFloat (Fin 0.9), PFloat (Fin 0.7), PFloat (Fin 0.85)]),
      (''single_value'', [PFloat (Fin 0.42)])])
   \<and> list_all (\<lambda>(k, vs). list_all finite_float vs)
     [(''fluency'', [PFloat (Fin 0.8), PFloat (Fin 0.9), PFloat (Fin 0.7), PFloat (Fin 0.85)]),
      (''single_value'', [PFloat (Fin 0.42)])]
   \<and> (\<exists>ra rb. compute_reward_metrics np
     [(''fluency'', [PFloat (Fin 0.8), PFloat (Fin 0.9), PFloat (Fin 0.7), PFloat (Fin 0.85)]),
      (''single_value'', [PFloat (Fin 0.42)])] = Inr ra
     \<and> compute_reward_metrics_standalone np (series_dict
     [(''fluency'', [PFloat (Fin 0.8), PFloat (Fin 0.9), PFloat (Fin 0.7), PFloat (Fin 0.85)]),
      (''single_value'', [PFloat (Fin 0.42)])]) = Inr rb
     \<and> map_of ra \<subseteq>\<^sub>m map_of rb
     \<and> map_of ra ''reward/fluency/count'' = None
     \<and> map_of rb ''reward/fluency/count'' = Some (MInt 4)
     \<and> map_of ra ''reward/single_value/std'' = None
     \<and> map_of rb ''reward/single_value/std'' = Some (MFloat (Fin 0)))"
proof
  fix np
  let ?f = "[PFloat (Fin 0.8), PFloat (Fin 0.9), PFloat (Fin 0.7), PFloat (Fin 0.85)]"
  let ?s = "[PFloat (Fin 0.42)]"
  let ?d = "[(''fluency'', ?f), (''single_value'', ?s)]"
  have h: "distinct (map fst ?d)" "list_all (\<lambda>(k, vs). list_all finite_float vs) ?d" by simp_all
  from reports_agree_on_finite_series[OF h, of np] obtain ra rb where
    r: "compute_reward_metrics np ?d = Inr ra"
      "compute_reward_metrics_standalone np (series_dict ?d) = Inr rb"
      "map_of ra \<subseteq>\<^sub>m map_of rb"
    and c: "\<forall>(name, vs) \<in> set ?d. vs \<noteq> [] \<longrightarrow>
                 map_of ra (''reward/'' @ name @ ''/count'') = None
               \<and> map_of rb (''reward/'' @ name @ ''/count'') = Some (MInt (int (length vs)))"
    and s: "\<forall>(name, vs) \<in> set ?d. length vs = 1 \<longrightarrow>
                 map_of ra (''reward/'' @ name @ ''/std'') = None
               \<and> map_of rb (''reward/'' @ name @ ''/std'') = Some (MFloat (Fin 0))"
    by blast
  from c have c': "map_of ra ''reward/fluency/count'' = None"
    "map_of rb ''reward/fluency/count'' = Some (MInt 4)"
    by simp_all
  from s have s': "map_of ra ''reward/single_value/std'' = None"
    "map_of rb ''reward/single_value/std'' = Some (MFloat (Fin 0))"
    by simp_all
  from r c' s' have "\<exists>ra rb. compute_reward_metrics np ?d = Inr ra
     \<and> compute_reward_metrics_standalone np (series_dict ?d) = Inr rb
     \<and> map_of ra \<subseteq>\<^sub>m map_of rb
     \<and> map_of ra ''reward/fluency/count'' = None
     \<and> map_of rb ''reward/fluency/count'' = Some (MInt 4)
     \<and> map_of ra ''reward/single_value/std'' = None
     \<and> map_of rb ''reward/single_value/std'' = Some (MFloat (Fin 0))"
    by blast
  with h show "distinct (map fst ?d)
   \<and> list_all (\<lambda>(k, vs). list_all finite_float vs) ?d
   \<and> (\<exists>ra rb. compute_reward_metrics np ?d = Inr ra
     \<and> compute_reward_metrics_standalone np (series_dict ?d) = Inr rb
     \<and> map_of ra \<subseteq>\<^sub>m map_of rb
     \<and> map_of ra ''reward/fluency/count'' = None
     \<and> map_of rb ''reward/fluency/count'' = Some (MInt 4)
     \<and> map_of ra ''reward/single_value/std'' = None
     \<and> map_of rb ''reward/single_value/std'' = Some (MFloat (Fin 0)))"
    by (intro conjI)
qed

text \<open>
  C10 as stated fails, whatever the arithmetic: on \<^verbatim>\<open>{"safety": [0.9, 0.95, 0.88, 0.92]}\<close>
  the two reports differ, the second one has a count and the first has none.
\<close>

theorem reports_differ_counterexample:
  "\<forall>np. compute_reward_metrics np
     [(''safety'', [PFloat (Fin 0.9), PFloat (Fin 0.95), PFloat (Fin 0.88), PFloat (Fin 0.92)])]
   \<noteq> compute_reward_metrics_standalone np (series_dict
     [(''safety'', [PFloat (Fin 0.9), PFloat (Fin 0.95), PFloat (Fin 0.88), PFloat (Fin 0.92)])])
   \<and> map_of (projr (compute_reward_metrics np
     [(''safety'', [PFloat (Fin 0.9), PFloat (Fin 0.95), PFloat (Fin 0.88), PFloat (Fin 0.92)])]))
     ''reward/safety/count'' = None
   \<and> map_of (projr (compute_reward_metrics_standalone np (series_dict
     [(''safety'', [PFloat (Fin 0.9), PFloat (Fin 0.95), PFloat (Fin 0.88), PFloat (Fin 0.92)])])))
     ''reward/safety/count'' = Some (MInt 4)"
  by (simp add: model_defs)

end
